theory Spec2Isabelle
  imports
    Main
    "HOL-Library.Word"
    "HOL-Library.Stream"
    "HOL-Library.Char_ord"
    "HOL-Library.List_Lexorder"
    "HOL-Library.Multiset"
begin

section \<open>Python strings\<close>

text \<open>
  A Python \<open>str\<close> is modelled as a HOL \<open>string\<close>. The character tests and case
  mappings of the standard library are written out for the ASCII range, where they are
  table-free: \<open>str.isspace\<close>, \<open>str.isdigit\<close>, \<open>str.lower\<close> and \<open>str.casefold\<close>.
  Characters above 127 are taken as caseless and as neither digits nor spaces.
  Strings compare as in Python: lexicographically by character code.
\<close>

definition isspace_char :: "char \<Rightarrow> bool" where
  "isspace_char c \<longleftrightarrow>
     c \<in> set [CHR 0x09, CHR 0x0A, CHR 0x0B, CHR 0x0C, CHR 0x0D,
              CHR 0x1C, CHR 0x1D, CHR 0x1E, CHR 0x1F, CHR 0x20]"

definition strip :: "string \<Rightarrow> string" where
  "strip s = rev (dropWhile isspace_char (rev (dropWhile isspace_char s)))"

definition isdigit_char :: "char \<Rightarrow> bool" where
  "isdigit_char c \<longleftrightarrow> c \<in> set ''0123456789''"

definition isdigit :: "string \<Rightarrow> bool" where
  "isdigit s \<longleftrightarrow> s \<noteq> [] \<and> list_all isdigit_char s"

definition lower_char :: "char \<Rightarrow> char" where
  "lower_char c =
     (case map_of (zip ''ABCDEFGHIJKLMNOPQRSTUVWXYZ'' ''abcdefghijklmnopqrstuvwxyz'') c of
        Some l \<Rightarrow> l
      | None \<Rightarrow> c)"

definition lower :: "string \<Rightarrow> string" where
  "lower s = map lower_char s"

definition casefold :: "string \<Rightarrow> string" where
  "casefold s = map lower_char s"

definition startswith :: "string \<Rightarrow> string \<Rightarrow> bool" where
  "startswith s p \<longleftrightarrow> take (length p) s = p"

definition endswith :: "string \<Rightarrow> string \<Rightarrow> bool" where
  "endswith s p \<longleftrightarrow> length p \<le> length s \<and> drop (length s - length p) s = p"

text \<open>\<open>str(n)\<close> for a Python integer: the decimal digits, most significant first.\<close>

definition digit_char :: "nat \<Rightarrow> char" where
  "digit_char d = ''0123456789'' ! d"

fun digits_of :: "nat \<Rightarrow> string" where
  "digits_of n =
     (if n < 10 then [digit_char n] else digits_of (n div 10) @ [digit_char (n mod 10)])"

declare digits_of.simps [simp del]

definition str_int :: "int \<Rightarrow> string" where
  "str_int i = (if i < 0 then CHR ''-'' # digits_of (nat (- i)) else digits_of (nat i))"

text \<open>The value a string of decimal digits denotes, as \<open>int(s)\<close> reads it.\<close>

definition digit_value :: "char \<Rightarrow> nat" where
  "digit_value c = of_char c - 48"

definition decimal_value :: "string \<Rightarrow> nat" where
  "decimal_value s = foldl (\<lambda>acc c. 10 * acc + digit_value c) 0 s"

section \<open>JSON values as \<open>json.loads\<close> returns them\<close>

text \<open>
  A JSON object becomes a Python \<open>dict\<close>, held here as an association list in insertion
  order. \<open>d.get(k)\<close> is \<open>None\<close> for a missing key, which is also what JSON \<open>null\<close>
  loads as. A JSON boolean loads as a Python \<open>bool\<close>, and \<open>bool\<close> is a subclass of
  \<open>int\<close>: \<open>isinstance(True, int)\<close> holds. A float only carries its literal.
\<close>

datatype json =
    JNull
  | JBool bool
  | JInt int
  | JFloat string
  | JStr string
  | JList "json list"
  | JDict "(string \<times> json) list"

type_synonym dict = "(string \<times> json) list"

definition dict_get :: "dict \<Rightarrow> string \<Rightarrow> json" where
  "dict_get d k = (case map_of d k of None \<Rightarrow> JNull | Some v \<Rightarrow> v)"

text \<open>\<open>d[k] = v\<close>: an existing key keeps its place, a new key goes last.\<close>

fun dict_set :: "dict \<Rightarrow> string \<Rightarrow> json \<Rightarrow> dict" where
  "dict_set [] k v = [(k, v)]"
| "dict_set ((k', v') # d) k v = (if k' = k then (k, v) # d else (k', v') # dict_set d k v)"

text \<open>\<open>isinstance(value, str) and value\<close>: a non-empty string.\<close>

fun nonempty_str :: "json \<Rightarrow> string option" where
  "nonempty_str (JStr s) = (if s = [] then None else Some s)"
| "nonempty_str _ = None"

text \<open>\<open>x or d\<close> for an optional string \<open>x\<close>: \<open>None\<close> and the empty string are falsy.\<close>

fun or_else :: "string option \<Rightarrow> string \<Rightarrow> string" where
  "or_else None d = d"
| "or_else (Some s) d = (if s = [] then d else s)"

section \<open>Identifiers and signatures\<close>

definition CONFIG_FILE_NAME :: string where
  "CONFIG_FILE_NAME = ''vx.json''"

definition NOTE_SUFFIX :: string where
  "NOTE_SUFFIX = ''.md''"

definition DEFAULT_CONFIG_VERSION :: int where
  "DEFAULT_CONFIG_VERSION = 3"

definition BUILT_IN_DIR_NAMES :: "string list" where
  "BUILT_IN_DIR_NAMES =
     [''vx_notebook'', ''vx_recycle_bin'', ''vx_images'', ''vx_attachments'',
      ''_v_images'', ''_v_attachments'']"

definition NODE_VISUAL_KEYS :: "string list" where
  "NODE_VISUAL_KEYS = [''background_color'', ''border_color'', ''name_color'']"

definition ATTACHMENT_ROOT_CANDIDATES :: "string list" where
  "ATTACHMENT_ROOT_CANDIDATES = [''vx_attachments'', ''_v_attachments'']"

text \<open>
  \<open>parse_id_like\<close>. The first branch is \<open>isinstance(value, int)\<close>, which a \<open>bool\<close>
  passes too; \<open>True >= 0\<close> and \<open>False >= 0\<close> hold, and \<open>str\<close> of a \<open>bool\<close> is its name.
\<close>

fun parse_id_like :: "json \<Rightarrow> string option" where
  "parse_id_like (JBool b) = Some (if b then ''True'' else ''False'')"
| "parse_id_like (JInt n) = (if n \<ge> 0 then Some (str_int n) else None)"
| "parse_id_like (JStr s) = (if isdigit (strip s) then Some (strip s) else None)"
| "parse_id_like _ = None"

definition parse_signature_like :: "json \<Rightarrow> string option" where
  "parse_signature_like v =
     (case parse_id_like v of
        None \<Rightarrow> None
      | Some parsed \<Rightarrow> if parsed \<noteq> ''0'' then Some parsed else None)"

text \<open>
  The random source is the sequence of its future 63-bit draws. \<open>generate_signature\<close>
  loops until a draw is positive; on a source that only ever draws zero it never
  returns, which is the value \<open>None\<close>.
\<close>

type_synonym rng = "63 word stream"

partial_function (option) generate_signature :: "rng \<Rightarrow> (string \<times> rng) option" where
  "generate_signature r =
     (if unat (shd r) > 0 then Some (str_int (int (unat (shd r))), stl r)
      else generate_signature (stl r))"

section \<open>Outcomes of a call\<close>

text \<open>
  A call returns, raises, or never returns. The exceptions are those of the library
  calls the program makes without a handler around them.
\<close>

datatype error = YearOutOfRange | IsADirectoryError | NotADirectoryError

datatype 'a outcome = Diverges | Raises error | Returns 'a

section \<open>Timestamps\<close>

text \<open>
  A POSIX timestamp is held as the whole number of microseconds that
  \<open>datetime.fromtimestamp\<close> rounds the float to. \<open>replace(microsecond=0)\<close> then keeps
  the whole seconds, rounding down. \<open>fromtimestamp\<close> raises outside the years 1 to 9999.
\<close>

type_synonym timestamp = int

definition civil_from_days :: "int \<Rightarrow> int \<times> int \<times> int" where
  "civil_from_days days =
     (let z = days + 719468;
          era = z div 146097;
          doe = z mod 146097;
          yoe = (doe - doe div 1460 + doe div 36524 - doe div 146096) div 365;
          doy = doe - (365 * yoe + yoe div 4 - yoe div 100);
          mp = (5 * doy + 2) div 153;
          d = doy - (153 * mp + 2) div 5 + 1;
          m = (if mp < 10 then mp + 3 else mp - 9);
          y = yoe + era * 400 + (if m \<le> 2 then 1 else 0)
      in (y, m, d))"

definition zero_pad :: "nat \<Rightarrow> int \<Rightarrow> string" where
  "zero_pad width v =
     (let ds = digits_of (nat v) in replicate (width - length ds) CHR ''0'' @ ds)"

text \<open>
  \<open>isoformat()\<close> of an aware UTC datetime whose microsecond is zero: the date and
  the time of day, then the offset.
\<close>

definition isoformat_seconds :: "int \<Rightarrow> string" where
  "isoformat_seconds secs =
     (let (y, m, d) = civil_from_days (secs div 86400);
          sod = secs mod 86400
      in zero_pad 4 y @ ''-'' @ zero_pad 2 m @ ''-'' @ zero_pad 2 d @ ''T'' @
         zero_pad 2 (sod div 3600) @ '':'' @ zero_pad 2 (sod mod 3600 div 60) @ '':'' @
         zero_pad 2 (sod mod 60))"

definition isoformat_utc :: "int \<Rightarrow> string" where
  "isoformat_utc secs = isoformat_seconds secs @ ''+00:00''"

text \<open>\<open>s.replace(old, new)\<close> for a non-empty \<open>old\<close>: leftmost matches, not overlapping.\<close>

function replace :: "string \<Rightarrow> string \<Rightarrow> string \<Rightarrow> string" where
  "replace [] old new = []"
| "replace (c # cs) old new =
     (if old \<noteq> [] \<and> take (length old) (c # cs) = old
      then new @ replace (drop (length old) (c # cs)) old new
      else c # replace cs old new)"
  by pat_completeness auto
termination
  by (relation "measure (\<lambda>(s, old, new). length s)") auto

definition MIN_SECONDS :: int where
  "MIN_SECONDS = - 62135596800"

definition MAX_SECONDS :: int where
  "MAX_SECONDS = 253402300799"

definition iso_utc_from_timestamp :: "timestamp \<Rightarrow> string outcome" where
  "iso_utc_from_timestamp ts =
     (let secs = ts div 1000000
      in if secs < MIN_SECONDS \<or> MAX_SECONDS < secs then Raises YearOutOfRange
         else Returns (replace (isoformat_utc secs) ''+00:00'' ''Z''))"

section \<open>The file system\<close>

text \<open>
  A directory tree as the program sees it through \<open>pathlib\<close>. A directory lists its
  children in the order \<open>iterdir\<close> yields them. \<open>stat\<close> gives the modification time or
  fails (\<open>None\<close>). Reading a regular file fails (\<open>Unreadable\<close>), gives text that is
  not JSON, or gives a JSON document; the text that \<open>json.dumps\<close> writes is taken to load
  back as the value written. A symbolic link carries what it resolves to, if anything;
  links are taken to point outside the scanned tree. Names are looked up exactly.
\<close>

datatype content = Unreadable | NotJson | Document json

datatype node =
    File "timestamp option" content
  | Dir "timestamp option" "(string \<times> node) list"
  | Symlink "node option"
  | Other

fun resolve :: "node \<Rightarrow> node option" where
  "resolve (Symlink None) = None"
| "resolve (Symlink (Some t)) = resolve t"
| "resolve n = Some n"

fun is_symlink :: "node \<Rightarrow> bool" where
  "is_symlink (Symlink t) = True"
| "is_symlink n = False"

definition is_dir :: "node \<Rightarrow> bool" where
  "is_dir n = (case resolve n of Some (Dir st ch) \<Rightarrow> True | _ \<Rightarrow> False)"

definition is_file :: "node \<Rightarrow> bool" where
  "is_file n = (case resolve n of Some (File st c) \<Rightarrow> True | _ \<Rightarrow> False)"

text \<open>\<open>iterdir\<close> of a path that is a directory, possibly through links.\<close>

definition iterdir :: "node \<Rightarrow> (string \<times> node) list" where
  "iterdir n = (case resolve n of Some (Dir st ch) \<Rightarrow> ch | _ \<Rightarrow> [])"

text \<open>\<open>stat().st_mtime\<close> of a regular file or directory.\<close>

fun st_mtime :: "node \<Rightarrow> timestamp option" where
  "st_mtime (File st c) = st"
| "st_mtime (Dir st ch) = st"
| "st_mtime n = None"

text \<open>\<open>Path.suffix\<close> and \<open>Path.stem\<close> of a final path component.\<close>

definition rfind_dot :: "string \<Rightarrow> nat option" where
  "rfind_dot name =
     (if CHR ''.'' \<in> set name
      then Some (length name - 1 - length (takeWhile (\<lambda>c. c \<noteq> CHR ''.'') (rev name)))
      else None)"

definition suffix :: "string \<Rightarrow> string" where
  "suffix name =
     (case rfind_dot name of
        Some i \<Rightarrow> if 0 < i \<and> i + 1 < length name then drop i name else []
      | None \<Rightarrow> [])"

definition stem :: "string \<Rightarrow> string" where
  "stem name =
     (case rfind_dot name of
        Some i \<Rightarrow> if 0 < i \<and> i + 1 < length name then take i name else name
      | None \<Rightarrow> name)"

text \<open>A path is its list of components; \<open>str\<close> joins them with the separator.\<close>

type_synonym path = "string list"

fun path_str :: "path \<Rightarrow> string" where
  "path_str [] = []"
| "path_str [c] = c"
| "path_str (c # cs) = c @ ''/'' @ path_str cs"

text \<open>
  What the run threads through its calls: the random source, the wall clock as the
  sequence of its future readings, the lines printed, and the config built for every
  directory visited, in order (the writer's input, kept also when nothing is written).
\<close>

record world =
  rng :: rng
  clock :: "timestamp stream"
  stdout :: "string list"
  built :: "(path \<times> dict) list"

text \<open>\<open>print(line)\<close>.\<close>

definition print_line :: "string \<Rightarrow> world \<Rightarrow> world" where
  "print_line line w = w\<lparr>stdout := stdout w @ [line]\<rparr>"

definition safe_mtime :: "timestamp option \<Rightarrow> world \<Rightarrow> timestamp \<times> world" where
  "safe_mtime st w =
     (case st of
        Some t \<Rightarrow> (t, w)
      | None \<Rightarrow> (shd (clock w), w\<lparr>clock := stl (clock w)\<rparr>))"

section \<open>Existing-state loader\<close>

text \<open>The argument is what stands at \<open>dir_path / "vx.json"\<close>, if anything.\<close>

definition load_existing_config :: "node option \<Rightarrow> dict" where
  "load_existing_config p =
     (case p of
        None \<Rightarrow> []
      | Some n \<Rightarrow>
          (case resolve n of
             Some (File st (Document (JDict d))) \<Rightarrow> d
           | _ \<Rightarrow> []))"

fun map_entries_loop :: "json list \<Rightarrow> (string \<times> dict) list \<Rightarrow> (string \<times> dict) list" where
  "map_entries_loop [] result = result"
| "map_entries_loop (JDict item # items) result =
     (case dict_get item ''name'' of
        JStr name \<Rightarrow>
          if name \<noteq> [] \<and> name \<notin> fst ` set result
          then map_entries_loop items (result @ [(name, item)])
          else map_entries_loop items result
      | _ \<Rightarrow> map_entries_loop items result)"
| "map_entries_loop (item # items) result = map_entries_loop items result"

fun map_entries_by_name :: "json \<Rightarrow> (string \<times> dict) list" where
  "map_entries_by_name (JList entries) = map_entries_loop entries []"
| "map_entries_by_name entries = []"

text \<open>\<open>m.get(name, {})\<close>.\<close>

definition get_entry :: "(string \<times> dict) list \<Rightarrow> string \<Rightarrow> dict" where
  "get_entry m name = (case map_of m name of None \<Rightarrow> [] | Some d \<Rightarrow> d)"

definition get_existing_time :: "dict \<Rightarrow> string \<Rightarrow> timestamp \<Rightarrow> string outcome" where
  "get_existing_time existing key fallback_ts =
     (case nonempty_str (dict_get existing key) of
        Some v \<Rightarrow> Returns v
      | None \<Rightarrow> iso_utc_from_timestamp fallback_ts)"

section \<open>Scanner\<close>

definition is_hidden_name :: "string \<Rightarrow> bool" where
  "is_hidden_name name = startswith name ''.''"

definition should_exclude_dir :: "string \<Rightarrow> bool" where
  "should_exclude_dir name =
     (if is_hidden_name name then True
      else if endswith (lower name) ''_assets'' then True
      else if lower name \<in> set BUILT_IN_DIR_NAMES then True
      else False)"

text \<open>What one pass of the loop of \<open>iter_children\<close> does with a child.\<close>

datatype child_kind = Skipped | Folder | Note

definition classify :: "string \<Rightarrow> node \<Rightarrow> child_kind" where
  "classify name child =
     (if name = CONFIG_FILE_NAME then Skipped
      else if is_symlink child then Skipped
      else if is_dir child then (if should_exclude_dir name then Skipped else Folder)
      else if is_file child \<and> lower (suffix name) = NOTE_SUFFIX then Note
      else Skipped)"

text \<open>\<open>list.sort(key=...)\<close> is stable, as insertion sort by key is.\<close>

definition iter_children ::
  "(string \<times> node) list \<Rightarrow> (string \<times> node) list \<times> (string \<times> node) list" where
  "iter_children ch =
     (sort_key (\<lambda>p. casefold (fst p)) (filter (\<lambda>p. classify (fst p) (snd p) = Folder) ch),
      sort_key (\<lambda>p. casefold (fst p)) (filter (\<lambda>p. classify (fst p) (snd p) = Note) ch))"

section \<open>Attachment inference\<close>

text \<open>
  The first argument lists the directory the note lies in. The loop over the root
  candidates returns at the first root with exactly one sub-directory and otherwise
  goes on to the next candidate.
\<close>

fun infer_roots :: "(string \<times> node) list \<Rightarrow> string list \<Rightarrow> string" where
  "infer_roots assets [] = []"
| "infer_roots assets (root_name # rest) =
     (case map_of assets root_name of
        None \<Rightarrow> infer_roots assets rest
      | Some root \<Rightarrow>
          if \<not> is_dir root then infer_roots assets rest
          else (case sort_key casefold (map fst (filter (\<lambda>p. is_dir (snd p)) (iterdir root))) of
                  [subdir] \<Rightarrow> subdir
                | _ \<Rightarrow> infer_roots assets rest))"

definition infer_attachment_folder_from_assets ::
  "(string \<times> node) list \<Rightarrow> string \<Rightarrow> string" where
  "infer_attachment_folder_from_assets siblings note_name =
     (case map_of siblings (stem note_name @ ''_assets'') of
        None \<Rightarrow> []
      | Some assets_root \<Rightarrow>
          if \<not> is_dir assets_root then []
          else infer_roots (iterdir assets_root) ATTACHMENT_ROOT_CANDIDATES)"

section \<open>Reconciler\<close>

fun and_then :: "'a outcome \<Rightarrow> ('a \<Rightarrow> 'b outcome) \<Rightarrow> 'b outcome" where
  "and_then Diverges f = Diverges"
| "and_then (Raises e) f = Raises e"
| "and_then (Returns x) f = f x"

fun clean_tags :: "json \<Rightarrow> json list" where
  "clean_tags (JList tags) = filter (\<lambda>tag. nonempty_str tag \<noteq> None) tags"
| "clean_tags v = []"

text \<open>The loop over \<open>NODE_VISUAL_KEYS\<close> that ends each of the three builders.\<close>

fun copy_visual_keys :: "dict \<Rightarrow> string list \<Rightarrow> dict \<Rightarrow> dict" where
  "copy_visual_keys existing [] entry = entry"
| "copy_visual_keys existing (key # keys) entry =
     (case nonempty_str (dict_get existing key) of
        Some v \<Rightarrow> copy_visual_keys existing keys (dict_set entry key (JStr v))
      | None \<Rightarrow> copy_visual_keys existing keys entry)"

definition build_folder_entry :: "string \<Rightarrow> dict \<Rightarrow> dict" where
  "build_folder_entry name existing =
     copy_visual_keys existing NODE_VISUAL_KEYS [(''name'', JStr name)]"

text \<open>
  \<open>parse_signature_like(v) or generate_signature(rng)\<close>: the generator is only called
  when the parsed value is \<open>None\<close> or empty.
\<close>

definition signature_or_generate :: "json \<Rightarrow> world \<Rightarrow> (string \<times> world) outcome" where
  "signature_or_generate v w =
     (case or_else (parse_signature_like v) [] of
        [] \<Rightarrow>
          (case generate_signature (rng w) of
             None \<Rightarrow> Diverges
           | Some (sig, r) \<Rightarrow> Returns (sig, w\<lparr>rng := r\<rparr>))
      | parsed \<Rightarrow> Returns (parsed, w))"

text \<open>
  \<open>build_file_entry\<close>: \<open>siblings\<close> lists the directory of the note, \<open>note\<close> is the
  note's name and node.
\<close>

definition build_file_entry ::
  "(string \<times> node) list \<Rightarrow> string \<times> node \<Rightarrow> dict \<Rightarrow> world \<Rightarrow> (dict \<times> world) outcome" where
  "build_file_entry siblings note existing w =
     (let (mtime, w1) = safe_mtime (st_mtime (snd note)) w
      in and_then (signature_or_generate (dict_get existing ''signature'') w1) (\<lambda>(signature, w2).
         and_then (get_existing_time existing ''created_time'' mtime) (\<lambda>created_time.
         and_then (iso_utc_from_timestamp mtime) (\<lambda>modified_time.
           let entry =
                 [(''name'', JStr (fst note)),
                  (''id'', JStr (or_else (parse_id_like (dict_get existing ''id'')) ''0'')),
                  (''signature'', JStr signature),
                  (''created_time'', JStr created_time),
                  (''modified_time'', JStr modified_time),
                  (''tags'', JList (clean_tags (dict_get existing ''tags'')))];
               attachment_folder =
                 (case dict_get existing ''attachment_folder'' of JStr s \<Rightarrow> s | _ \<Rightarrow> []);
               attachment_folder =
                 (if attachment_folder = []
                  then infer_attachment_folder_from_assets siblings (fst note)
                  else attachment_folder)
           in Returns
                (copy_visual_keys existing NODE_VISUAL_KEYS
                   (dict_set entry ''attachment_folder'' (JStr attachment_folder)),
                 w2)))))"

text \<open>The comprehension over the notes, which passes the random source along.\<close>

fun build_file_entries ::
  "(string \<times> node) list \<Rightarrow> (string \<times> dict) list \<Rightarrow> (string \<times> node) list \<Rightarrow> world \<Rightarrow>
     (json list \<times> world) outcome" where
  "build_file_entries siblings existing_files [] w = Returns ([], w)"
| "build_file_entries siblings existing_files (note # notes) w =
     and_then (build_file_entry siblings note (get_entry existing_files (fst note)) w)
       (\<lambda>(entry, w1).
          and_then (build_file_entries siblings existing_files notes w1)
            (\<lambda>(entries, w2). Returns (JDict entry # entries, w2)))"

text \<open>\<open>isinstance(version, int)\<close> holds for a \<open>bool\<close> as well.\<close>

fun version_of :: "json \<Rightarrow> json" where
  "version_of (JInt n) = JInt n"
| "version_of (JBool b) = JBool b"
| "version_of v = JInt DEFAULT_CONFIG_VERSION"

definition build_node_config ::
  "node \<Rightarrow> (string \<times> node) list \<Rightarrow> (string \<times> node) list \<Rightarrow> dict \<Rightarrow> world \<Rightarrow>
     (dict \<times> world) outcome" where
  "build_node_config dir_node folder_paths note_paths existing w =
     (let (mtime, w1) = safe_mtime (st_mtime dir_node) w;
          existing_files = map_entries_by_name (dict_get existing ''files'');
          existing_folders = map_entries_by_name (dict_get existing ''folders'');
          folder_entries =
            map (\<lambda>folder. JDict (build_folder_entry (fst folder)
                                     (get_entry existing_folders (fst folder))))
              folder_paths
      in and_then (build_file_entries (iterdir dir_node) existing_files note_paths w1)
           (\<lambda>(file_entries, w2).
         and_then (signature_or_generate (dict_get existing ''signature'') w2) (\<lambda>(signature, w3).
         and_then (get_existing_time existing ''created_time'' mtime) (\<lambda>created_time.
         and_then (iso_utc_from_timestamp mtime) (\<lambda>modified_time.
           Returns
             (copy_visual_keys existing NODE_VISUAL_KEYS
                [(''version'', version_of (dict_get existing ''version'')),
                 (''id'', JStr (or_else (parse_id_like (dict_get existing ''id'')) ''0'')),
                 (''signature'', JStr signature),
                 (''created_time'', JStr created_time),
                 (''modified_time'', JStr modified_time),
                 (''files'', JList file_entries),
                 (''folders'', JList folder_entries)],
              w3))))))"

section \<open>Writer\<close>

text \<open>
  \<open>write_text\<close> on what stands at the path: a regular file is overwritten, a
  directory refuses, a link is followed (and a dangling one gets its target created),
  a device or pipe takes the text and stays what it is. \<open>t\<close> is the time of the write.
\<close>

fun write_text :: "node \<Rightarrow> content \<Rightarrow> timestamp \<Rightarrow> node outcome" where
  "write_text (File st c) text t = Returns (File (Some t) text)"
| "write_text (Dir st ch) text t = Raises IsADirectoryError"
| "write_text (Symlink None) text t = Returns (Symlink (Some (File (Some t) text)))"
| "write_text (Symlink (Some target)) text t =
     and_then (write_text target text t) (\<lambda>target'. Returns (Symlink (Some target')))"
| "write_text Other text t = Returns Other"

fun put_child :: "(string \<times> node) list \<Rightarrow> string \<Rightarrow> node \<Rightarrow> (string \<times> node) list" where
  "put_child [] name n = [(name, n)]"
| "put_child ((name', n') # ch) name n =
     (if name' = name then (name, n) # ch else (name', n') # put_child ch name n)"

text \<open>
  \<open>write_json(dir_path / "vx.json", data)\<close>, given the directory. Creating the file
  also touches the directory.
\<close>

fun write_json :: "node \<Rightarrow> dict \<Rightarrow> world \<Rightarrow> (node \<times> world) outcome" where
  "write_json (Dir st ch) data w =
     (let t = shd (clock w);
          w1 = w\<lparr>clock := stl (clock w)\<rparr>
      in case map_of ch CONFIG_FILE_NAME of
           None \<Rightarrow>
             Returns (Dir (map_option (\<lambda>old. t) st)
                        (ch @ [(CONFIG_FILE_NAME, File (Some t) (Document (JDict data)))]), w1)
         | Some n \<Rightarrow>
             and_then (write_text n (Document (JDict data)) t)
               (\<lambda>n'. Returns (Dir st (put_child ch CONFIG_FILE_NAME n'), w1)))"
| "write_json n data w = Raises NotADirectoryError"

section \<open>Orchestrator\<close>

text \<open>
  \<open>rebuild_recursively\<close> takes the directory as a path and as a node and returns the
  node as the run leaves it, with the three totals. \<open>rebuild_folders\<close> is its loop
  over the sub-folders: it carries the listing of the directory, in which each visited
  sub-folder is put back, and the running totals.
\<close>

lemma and_then_cong [fundef_cong]:
  "m = m' \<Longrightarrow> (\<And>x. m' = Returns x \<Longrightarrow> f x = f' x) \<Longrightarrow> and_then m f = and_then m' f'"
  by (cases m') auto

function rebuild_recursively ::
    "path \<Rightarrow> node \<Rightarrow> bool \<Rightarrow> bool \<Rightarrow> world \<Rightarrow> (node \<times> (nat \<times> nat \<times> nat) \<times> world) outcome"
  and rebuild_folders ::
    "path \<Rightarrow> (string \<times> node) list \<Rightarrow> bool \<Rightarrow> bool \<Rightarrow>
       (string \<times> node) list \<times> (nat \<times> nat \<times> nat) \<times> world \<Rightarrow>
       ((string \<times> node) list \<times> (nat \<times> nat \<times> nat) \<times> world) outcome"
where
  "rebuild_recursively dir_path (Dir st ch) dry_run verbose w =
     (let existing = load_existing_config (map_of ch CONFIG_FILE_NAME);
          folders = fst (iter_children ch);
          notes = snd (iter_children ch)
      in and_then (build_node_config (Dir st ch) folders notes existing w) (\<lambda>(config, w1).
         let w2 = w1\<lparr>built := built w1 @ [(dir_path, config)]\<rparr>;
             w3 = (if verbose \<or> dry_run
                   then print_line
                          (path_str (dir_path @ [CONFIG_FILE_NAME]) @ ''  folders='' @
                           str_int (int (length folders)) @ '' md='' @
                           str_int (int (length notes))) w2
                   else w2)
         in and_then (if \<not> dry_run then write_json (Dir st ch) config w3
                      else Returns (Dir st ch, w3)) (\<lambda>(dir_node, w4).
            and_then (rebuild_folders dir_path folders dry_run verbose
                        (iterdir dir_node, (1, length folders, length notes), w4))
              (\<lambda>(ch', totals, w5). Returns (Dir (st_mtime dir_node) ch', totals, w5)))))"
| "rebuild_recursively dir_path (File st c) dry_run verbose w = Raises NotADirectoryError"
| "rebuild_recursively dir_path (Symlink t) dry_run verbose w = Raises NotADirectoryError"
| "rebuild_recursively dir_path Other dry_run verbose w = Raises NotADirectoryError"
| "rebuild_folders dir_path [] dry_run verbose acc = Returns acc"
| "rebuild_folders dir_path (folder # rest) dry_run verbose (ch, (total_configs, total_folders, total_notes), w) =
     and_then (rebuild_recursively (dir_path @ [fst folder]) (snd folder) dry_run verbose w)
       (\<lambda>(folder', (sub_configs, sub_folders, sub_notes), w').
          rebuild_folders dir_path rest dry_run verbose
            (put_child ch (fst folder) folder',
             (total_configs + sub_configs, total_folders + sub_folders, total_notes + sub_notes),
             w'))"
  by pat_completeness auto
termination
proof (relation "measure (\<lambda>x. case x of
            Inl (p, n, d, v, w) \<Rightarrow> size n
          | Inr (p, fs, d, v, acc) \<Rightarrow> sum_list (map (\<lambda>f. Suc (size (snd f))) fs))",
       goal_cases)
  case 1
  show ?case by simp
next
  case (2 dir_path st ch dry_run verbose w)
  let ?g = "\<lambda>f :: string \<times> node. Suc (size (snd f))"
  have sorted: "sum_list (map ?g (sort_key k xs)) = sum_list (map ?g xs)"
    for k :: "string \<times> node \<Rightarrow> string" and xs
  proof -
    have "sum_mset (mset (map ?g (sort_key k xs))) = sum_mset (mset (map ?g xs))" by simp
    then show ?thesis by (simp only: sum_mset_sum_list)
  qed
  have bound: "sum_list (map ?g xs) \<le> size_list (size_prod (\<lambda>x. 0) size) xs" for xs
    by (induction xs) auto
  have "sum_list (map ?g (fst (iter_children ch))) \<le> sum_list (map ?g ch)"
    by (simp only: iter_children_def fst_conv sorted sum_list_filter_le_nat)
  also have "\<dots> < size (Dir st ch)"
    using bound [of ch] by simp
  finally show ?case using 2(2) by simp
next
  case 3
  show ?case by simp
next
  case 4
  show ?case by simp
qed

declare rebuild_recursively.simps(1) [simp del]

section \<open>Facts about strings\<close>

lemma isdigit_char_digit_char: "d < 10 \<Longrightarrow> isdigit_char (digit_char d)"
proof -
  assume "d < 10"
  then have "d \<in> {0, 1, 2, 3, 4, 5, 6, 7, 8, 9}" by auto
  then show ?thesis by (auto simp: isdigit_char_def digit_char_def)
qed

lemma digit_value_digit_char: "d < 10 \<Longrightarrow> digit_value (digit_char d) = d"
proof -
  assume "d < 10"
  then have "d \<in> {0, 1, 2, 3, 4, 5, 6, 7, 8, 9}" by auto
  then show ?thesis by (auto simp: digit_value_def digit_char_def)
qed

lemma digits_of_nonempty: "digits_of n \<noteq> []"
  by (subst digits_of.simps) simp

lemma digits_of_all_digits: "list_all isdigit_char (digits_of n)"
proof (induction n rule: digits_of.induct)
  case (1 n)
  show ?case
  proof (cases "n < 10")
    case True
    then show ?thesis
      by (subst digits_of.simps) (simp add: isdigit_char_digit_char)
  next
    case False
    with 1 show ?thesis
      by (subst digits_of.simps) (simp add: isdigit_char_digit_char)
  qed
qed

lemma isdigit_digits_of: "isdigit (digits_of n)"
  by (simp add: isdigit_def digits_of_nonempty digits_of_all_digits)

lemma decimal_value_snoc:
  "decimal_value (s @ [c]) = 10 * decimal_value s + digit_value c"
  by (simp add: decimal_value_def)

lemma decimal_value_digits_of: "decimal_value (digits_of n) = n"
proof (induction n rule: digits_of.induct)
  case (1 n)
  show ?case
  proof (cases "n < 10")
    case True
    then show ?thesis
      by (subst digits_of.simps) (simp add: decimal_value_def digit_value_digit_char)
  next
    case False
    with 1 show ?thesis
      by (subst digits_of.simps) (simp add: decimal_value_snoc digit_value_digit_char)
  qed
qed

lemma digits_of_eq_zero: "digits_of n = ''0'' \<longleftrightarrow> n = 0"
proof
  assume "digits_of n = ''0''"
  then have "decimal_value (digits_of n) = decimal_value ''0''" by simp
  then show "n = 0"
    by (simp add: decimal_value_digits_of) (simp add: decimal_value_def digit_value_def)
next
  assume "n = 0"
  then show "digits_of n = ''0''"
    by (subst digits_of.simps) (simp add: digit_char_def)
qed

lemma str_int_nonneg: "0 \<le> i \<Longrightarrow> str_int i = digits_of (nat i)"
  by (simp add: str_int_def)

lemma isdigit_char_no_space: "isdigit_char c \<Longrightarrow> \<not> isspace_char c"
  unfolding isdigit_char_def isspace_char_def
  by (elim disjE | simp)+

lemma isdigit_no_space: "isdigit s \<Longrightarrow> c \<in> set s \<Longrightarrow> \<not> isspace_char c"
  by (simp add: isdigit_def list_all_iff isdigit_char_no_space)

lemma strip_id:
  assumes "s \<noteq> []" "\<not> isspace_char (hd s)" "\<not> isspace_char (last s)"
  shows "strip s = s"
proof -
  from assms have a: "dropWhile isspace_char s = s"
    by (cases s) auto
  from assms have b: "dropWhile isspace_char (rev s) = rev s"
    using dropWhile_eq_self_iff [of isspace_char "rev s"] by (simp add: hd_rev)
  show ?thesis by (simp add: strip_def a b)
qed

lemma strip_isdigit: "isdigit s \<Longrightarrow> strip s = s"
proof -
  assume d: "isdigit s"
  then have ne: "s \<noteq> []" by (simp add: isdigit_def)
  then have "hd s \<in> set s" "last s \<in> set s" by simp_all
  with d have "\<not> isspace_char (hd s)" "\<not> isspace_char (last s)"
    by (auto dest: isdigit_no_space)
  with ne show ?thesis by (rule strip_id)
qed

section \<open>Facts about dictionaries and outcomes\<close>

lemma map_of_dict_set: "map_of (dict_set d k v) k' = (if k' = k then Some v else map_of d k')"
  by (induction d) auto

lemma dict_get_dict_set: "dict_get (dict_set d k v) k' = (if k' = k then v else dict_get d k')"
  by (simp add: dict_get_def map_of_dict_set)

lemma dict_get_copy_visual_keys:
  "k \<notin> set keys \<Longrightarrow> dict_get (copy_visual_keys existing keys entry) k = dict_get entry k"
  by (induction keys arbitrary: entry) (auto simp: dict_get_dict_set split: option.splits)

lemma and_then_Returns:
  "and_then m f = Returns y \<longleftrightarrow> (\<exists>x. m = Returns x \<and> f x = Returns y)"
  by (cases m) auto

lemma safe_mtime_fields:
  "rng (snd (safe_mtime st w)) = rng w"
  "stdout (snd (safe_mtime st w)) = stdout w"
  "built (snd (safe_mtime st w)) = built w"
  by (simp_all add: safe_mtime_def split: option.splits)

lemma fst_safe_mtime:
  "fst (safe_mtime st w) = (case st of Some t \<Rightarrow> t | None \<Rightarrow> shd (clock w))"
  by (simp add: safe_mtime_def split: option.splits)

lemma build_file_entry_shape:
  assumes "build_file_entry siblings note existing w = Returns (entry, w')"
  shows "\<exists>signature created_time modified_time.
           signature_or_generate (dict_get existing ''signature'')
             (snd (safe_mtime (st_mtime (snd note)) w)) = Returns (signature, w') \<and>
           get_existing_time existing ''created_time''
             (fst (safe_mtime (st_mtime (snd note)) w)) = Returns created_time \<and>
           iso_utc_from_timestamp (fst (safe_mtime (st_mtime (snd note)) w)) =
             Returns modified_time \<and>
           entry =
             copy_visual_keys existing NODE_VISUAL_KEYS
               (dict_set
                  [(''name'', JStr (fst note)),
                   (''id'', JStr (or_else (parse_id_like (dict_get existing ''id'')) ''0'')),
                   (''signature'', JStr signature),
                   (''created_time'', JStr created_time),
                   (''modified_time'', JStr modified_time),
                   (''tags'', JList (clean_tags (dict_get existing ''tags'')))]
                  ''attachment_folder''
                  (JStr (if (case dict_get existing ''attachment_folder'' of
                               JStr s \<Rightarrow> s | _ \<Rightarrow> []) = []
                         then infer_attachment_folder_from_assets siblings (fst note)
                         else (case dict_get existing ''attachment_folder'' of
                                 JStr s \<Rightarrow> s | _ \<Rightarrow> []))))"
  using assms
  by (auto simp: build_file_entry_def and_then_Returns Let_def split: prod.splits)

lemma not_visual_key:
  "''name'' \<notin> set NODE_VISUAL_KEYS" "''id'' \<notin> set NODE_VISUAL_KEYS"
  "''signature'' \<notin> set NODE_VISUAL_KEYS" "''created_time'' \<notin> set NODE_VISUAL_KEYS"
  "''modified_time'' \<notin> set NODE_VISUAL_KEYS" "''tags'' \<notin> set NODE_VISUAL_KEYS"
  "''attachment_folder'' \<notin> set NODE_VISUAL_KEYS" "''version'' \<notin> set NODE_VISUAL_KEYS"
  "''files'' \<notin> set NODE_VISUAL_KEYS" "''folders'' \<notin> set NODE_VISUAL_KEYS"
  by (simp_all add: NODE_VISUAL_KEYS_def)

lemma build_file_entry_Returns:
  assumes "build_file_entry siblings note existing w = Returns (entry, w')"
  shows "\<exists>signature created_time modified_time.
           signature_or_generate (dict_get existing ''signature'')
             (snd (safe_mtime (st_mtime (snd note)) w)) = Returns (signature, w') \<and>
           get_existing_time existing ''created_time''
             (fst (safe_mtime (st_mtime (snd note)) w)) = Returns created_time \<and>
           iso_utc_from_timestamp (fst (safe_mtime (st_mtime (snd note)) w)) =
             Returns modified_time \<and>
           dict_get entry ''name'' = JStr (fst note) \<and>
           dict_get entry ''id'' = JStr (or_else (parse_id_like (dict_get existing ''id'')) ''0'') \<and>
           dict_get entry ''signature'' = JStr signature \<and>
           dict_get entry ''created_time'' = JStr created_time \<and>
           dict_get entry ''modified_time'' = JStr modified_time \<and>
           dict_get entry ''tags'' = JList (clean_tags (dict_get existing ''tags'')) \<and>
           dict_get entry ''attachment_folder'' =
             JStr (if (case dict_get existing ''attachment_folder'' of
                               JStr s \<Rightarrow> s | _ \<Rightarrow> []) = []
                         then infer_attachment_folder_from_assets siblings (fst note)
                         else (case dict_get existing ''attachment_folder'' of
                                 JStr s \<Rightarrow> s | _ \<Rightarrow> []))"
proof -
  from build_file_entry_shape [OF assms] obtain signature created_time modified_time where
    a: "signature_or_generate (dict_get existing ''signature'')
             (snd (safe_mtime (st_mtime (snd note)) w)) = Returns (signature, w')"
    and b: "get_existing_time existing ''created_time''
             (fst (safe_mtime (st_mtime (snd note)) w)) = Returns created_time"
    and c: "iso_utc_from_timestamp (fst (safe_mtime (st_mtime (snd note)) w)) =
             Returns modified_time"
    and e: "entry =
             copy_visual_keys existing NODE_VISUAL_KEYS
               (dict_set
                  [(''name'', JStr (fst note)),
                   (''id'', JStr (or_else (parse_id_like (dict_get existing ''id'')) ''0'')),
                   (''signature'', JStr signature),
                   (''created_time'', JStr created_time),
                   (''modified_time'', JStr modified_time),
                   (''tags'', JList (clean_tags (dict_get existing ''tags'')))]
                  ''attachment_folder''
                  (JStr (if (case dict_get existing ''attachment_folder'' of
                               JStr s \<Rightarrow> s | _ \<Rightarrow> []) = []
                         then infer_attachment_folder_from_assets siblings (fst note)
                         else (case dict_get existing ''attachment_folder'' of
                                 JStr s \<Rightarrow> s | _ \<Rightarrow> []))))"
    by blast
  have "dict_get entry ''name'' = JStr (fst note)"
    "dict_get entry ''id'' = JStr (or_else (parse_id_like (dict_get existing ''id'')) ''0'')"
    "dict_get entry ''signature'' = JStr signature"
    "dict_get entry ''created_time'' = JStr created_time"
    "dict_get entry ''modified_time'' = JStr modified_time"
    "dict_get entry ''tags'' = JList (clean_tags (dict_get existing ''tags''))"
    "dict_get entry ''attachment_folder'' =
             JStr (if (case dict_get existing ''attachment_folder'' of
                               JStr s \<Rightarrow> s | _ \<Rightarrow> []) = []
                         then infer_attachment_folder_from_assets siblings (fst note)
                         else (case dict_get existing ''attachment_folder'' of
                                 JStr s \<Rightarrow> s | _ \<Rightarrow> []))"
    unfolding e
    by (simp_all only: dict_get_copy_visual_keys not_visual_key not_False_eq_True
          dict_get_dict_set)
       (simp_all add: dict_get_def)
  with a b c show ?thesis by blast
qed

lemma signature_or_generate_fields:
  assumes "signature_or_generate v w = Returns (s, w')"
  shows "stdout w' = stdout w" "built w' = built w" "clock w' = clock w"
  using assms
  by (auto simp: signature_or_generate_def split: list.splits option.splits)

lemma build_file_entry_fields:
  assumes "build_file_entry siblings note existing w = Returns (entry, w')"
  shows "stdout w' = stdout w" "built w' = built w"
proof -
  from build_file_entry_shape [OF assms] obtain signature where
    "signature_or_generate (dict_get existing ''signature'')
             (snd (safe_mtime (st_mtime (snd note)) w)) = Returns (signature, w')"
    by blast
  from signature_or_generate_fields [OF this]
  show "stdout w' = stdout w" "built w' = built w"
    by (simp_all add: safe_mtime_fields)
qed

lemma build_file_entries_Returns:
  "build_file_entries siblings existing_files ns w = Returns (es, w') \<Longrightarrow>
     stdout w' = stdout w \<and> built w' = built w \<and>
     list_all2 (\<lambda>e n. \<exists>d. e = JDict d \<and> dict_get d ''name'' = JStr (fst n)) es ns"
proof (induction ns arbitrary: w es)
  case Nil
  then show ?case by simp
next
  case (Cons n ns)
  from Cons.prems obtain entry w1 es1 where
    a: "build_file_entry siblings n (get_entry existing_files (fst n)) w = Returns (entry, w1)"
    and b: "build_file_entries siblings existing_files ns w1 = Returns (es1, w')"
    and c: "es = JDict entry # es1"
    by (auto simp: and_then_Returns)
  from build_file_entry_Returns [OF a] have "dict_get entry ''name'' = JStr (fst n)"
    by blast
  with Cons.IH [OF b] build_file_entry_fields [OF a] c show ?case by simp
qed

lemma build_node_config_shape:
  assumes "build_node_config dir_node folder_paths note_paths existing w = Returns (config, w')"
  shows "\<exists>file_entries w2 signature created_time modified_time.
           build_file_entries (iterdir dir_node)
             (map_entries_by_name (dict_get existing ''files'')) note_paths
             (snd (safe_mtime (st_mtime dir_node) w)) = Returns (file_entries, w2) \<and>
           signature_or_generate (dict_get existing ''signature'') w2 = Returns (signature, w') \<and>
           get_existing_time existing ''created_time''
             (fst (safe_mtime (st_mtime dir_node) w)) = Returns created_time \<and>
           iso_utc_from_timestamp (fst (safe_mtime (st_mtime dir_node) w)) =
             Returns modified_time \<and>
           config =
             copy_visual_keys existing NODE_VISUAL_KEYS
                [(''version'', version_of (dict_get existing ''version'')),
                 (''id'', JStr (or_else (parse_id_like (dict_get existing ''id'')) ''0'')),
                 (''signature'', JStr signature),
                 (''created_time'', JStr created_time),
                 (''modified_time'', JStr modified_time),
                 (''files'', JList file_entries),
                 (''folders'',
                  JList (map (\<lambda>folder. JDict (build_folder_entry (fst folder)
                            (get_entry (map_entries_by_name (dict_get existing ''folders''))
                               (fst folder))))
                          folder_paths))]"
  using assms
  by (auto simp: build_node_config_def and_then_Returns Let_def split: prod.splits)

lemma build_node_config_Returns:
  assumes "build_node_config dir_node folder_paths note_paths existing w = Returns (config, w')"
  shows "\<exists>file_entries w2 signature created_time modified_time.
           build_file_entries (iterdir dir_node)
             (map_entries_by_name (dict_get existing ''files'')) note_paths
             (snd (safe_mtime (st_mtime dir_node) w)) = Returns (file_entries, w2) \<and>
           signature_or_generate (dict_get existing ''signature'') w2 = Returns (signature, w') \<and>
           get_existing_time existing ''created_time''
             (fst (safe_mtime (st_mtime dir_node) w)) = Returns created_time \<and>
           iso_utc_from_timestamp (fst (safe_mtime (st_mtime dir_node) w)) =
             Returns modified_time \<and>
           dict_get config ''version'' = version_of (dict_get existing ''version'') \<and>
           dict_get config ''id'' = JStr (or_else (parse_id_like (dict_get existing ''id'')) ''0'') \<and>
           dict_get config ''signature'' = JStr signature \<and>
           dict_get config ''created_time'' = JStr created_time \<and>
           dict_get config ''modified_time'' = JStr modified_time \<and>
           dict_get config ''files'' = JList file_entries \<and>
           dict_get config ''folders'' =
             JList (map (\<lambda>folder. JDict (build_folder_entry (fst folder)
                            (get_entry (map_entries_by_name (dict_get existing ''folders''))
                               (fst folder))))
                          folder_paths)"
proof -
  from build_node_config_shape [OF assms] obtain file_entries w2 signature created_time
      modified_time where
    a: "build_file_entries (iterdir dir_node)
             (map_entries_by_name (dict_get existing ''files'')) note_paths
             (snd (safe_mtime (st_mtime dir_node) w)) = Returns (file_entries, w2)"
    and b: "signature_or_generate (dict_get existing ''signature'') w2 = Returns (signature, w')"
    and c: "get_existing_time existing ''created_time''
             (fst (safe_mtime (st_mtime dir_node) w)) = Returns created_time"
    and d: "iso_utc_from_timestamp (fst (safe_mtime (st_mtime dir_node) w)) =
             Returns modified_time"
    and e: "config =
             copy_visual_keys existing NODE_VISUAL_KEYS
                [(''version'', version_of (dict_get existing ''version'')),
                 (''id'', JStr (or_else (parse_id_like (dict_get existing ''id'')) ''0'')),
                 (''signature'', JStr signature),
                 (''created_time'', JStr created_time),
                 (''modified_time'', JStr modified_time),
                 (''files'', JList file_entries),
                 (''folders'',
                  JList (map (\<lambda>folder. JDict (build_folder_entry (fst folder)
                            (get_entry (map_entries_by_name (dict_get existing ''folders''))
                               (fst folder))))
                          folder_paths))]"
    by blast
  have "dict_get config ''version'' = version_of (dict_get existing ''version'')"
    "dict_get config ''id'' = JStr (or_else (parse_id_like (dict_get existing ''id'')) ''0'')"
    "dict_get config ''signature'' = JStr signature"
    "dict_get config ''created_time'' = JStr created_time"
    "dict_get config ''modified_time'' = JStr modified_time"
    "dict_get config ''files'' = JList file_entries"
    "dict_get config ''folders'' =
             JList (map (\<lambda>folder. JDict (build_folder_entry (fst folder)
                            (get_entry (map_entries_by_name (dict_get existing ''folders''))
                               (fst folder))))
                          folder_paths)"
    unfolding e
    by (simp_all only: dict_get_copy_visual_keys not_visual_key not_False_eq_True)
       (simp_all add: dict_get_def)
  with a b c d show ?thesis by blast
qed

lemma build_node_config_fields:
  assumes "build_node_config dir_node folder_paths note_paths existing w = Returns (config, w')"
  shows "stdout w' = stdout w" "built w' = built w"
proof -
  from build_node_config_shape [OF assms] obtain file_entries w2 signature where
    a: "build_file_entries (iterdir dir_node)
             (map_entries_by_name (dict_get existing ''files'')) note_paths
             (snd (safe_mtime (st_mtime dir_node) w)) = Returns (file_entries, w2)"
    and b: "signature_or_generate (dict_get existing ''signature'') w2 = Returns (signature, w')"
    by blast
  from build_file_entries_Returns [OF a] signature_or_generate_fields [OF b]
  show "stdout w' = stdout w" "built w' = built w"
    by (simp_all add: safe_mtime_fields)
qed

section \<open>Evaluation at concrete inputs\<close>

lemma iso_epoch: "iso_utc_from_timestamp 0 = Returns ''1970-01-01T00:00:00Z''"
  by code_simp

lemma generate_signature_positive:
  "0 < unat (shd r) \<Longrightarrow> generate_signature r = Some (str_int (int (unat (shd r))), stl r)"
  by (subst generate_signature.simps) simp

lemma str_int_7: "str_int 7 = ''7''"
  by code_simp

text \<open>
  C10. A sidecar whose \<open>version\<close> is a JSON boolean passes the \<open>isinstance(version, int)\<close>
  test, so the boolean is carried into the new config in place of the default version,
  and the \<open>version\<close> of the config is then not an integer.
\<close>

theorem version_boolean_carried_through:
  assumes "dict_get existing ''version'' = JBool b"
    and "build_node_config dir_node folder_paths note_paths existing w = Returns (config, w')"
  shows "dict_get config ''version'' = JBool b \<and> (\<forall>n. dict_get config ''version'' \<noteq> JInt n)"
proof -
  from build_node_config_Returns [OF assms(2)]
  have "dict_get config ''version'' = version_of (dict_get existing ''version'')"
    by blast
  with assms(1) show ?thesis by simp
qed

theorem version_boolean_carried_through_witness:
  "dict_get [(''version'', JBool True), (''signature'', JStr ''7'')] ''version'' = JBool True \<and>
   build_node_config (Dir (Some 0) []) [] []
     [(''version'', JBool True), (''signature'', JStr ''7'')]
     \<lparr>rng = sconst 1, clock = sconst 0, stdout = [], built = []\<rparr> =
   Returns
     ([(''version'', JBool True), (''id'', JStr ''0''), (''signature'', JStr ''7''),
       (''created_time'', JStr ''1970-01-01T00:00:00Z''),
       (''modified_time'', JStr ''1970-01-01T00:00:00Z''),
       (''files'', JList []), (''folders'', JList [])],
      \<lparr>rng = sconst 1, clock = sconst 0, stdout = [], built = []\<rparr>) \<and>
   dict_get
     [(''version'', JBool True), (''id'', JStr ''0''), (''signature'', JStr ''7''),
       (''created_time'', JStr ''1970-01-01T00:00:00Z''),
       (''modified_time'', JStr ''1970-01-01T00:00:00Z''),
       (''files'', JList []), (''folders'', JList [])] ''version'' = JBool True"
proof -
  have h1: "dict_get [(''version'', JBool True), (''signature'', JStr ''7'')] ''version'' =
      JBool True"
    by (simp add: dict_get_def)
  have h2: "build_node_config (Dir (Some 0) []) [] []
     [(''version'', JBool True), (''signature'', JStr ''7'')]
     \<lparr>rng = sconst 1, clock = sconst 0, stdout = [], built = []\<rparr> =
   Returns
     ([(''version'', JBool True), (''id'', JStr ''0''), (''signature'', JStr ''7''),
       (''created_time'', JStr ''1970-01-01T00:00:00Z''),
       (''modified_time'', JStr ''1970-01-01T00:00:00Z''),
       (''files'', JList []), (''folders'', JList [])],
      \<lparr>rng = sconst 1, clock = sconst 0, stdout = [], built = []\<rparr>)"
    by (simp add: build_node_config_def safe_mtime_def dict_get_def iterdir_def
          signature_or_generate_def parse_signature_like_def isdigit_def isdigit_char_def
          strip_def isspace_char_def get_existing_time_def iso_epoch NODE_VISUAL_KEYS_def)
  from version_boolean_carried_through [OF h1 h2] h1 h2 show ?thesis by simp
qed

section \<open>Identifiers\<close>



lemma example_file_entry:
  "build_file_entry [] (''a.md'', File (Some 0) NotJson)
     [(''id'', JStr '' 42 ''), (''signature'', JStr ''0'')]
     \<lparr>rng = sconst 5, clock = sconst 0, stdout = [], built = []\<rparr> =
   Returns
     ([(''name'', JStr ''a.md''), (''id'', JStr ''42''), (''signature'', JStr ''5''),
       (''created_time'', JStr ''1970-01-01T00:00:00Z''),
       (''modified_time'', JStr ''1970-01-01T00:00:00Z''),
       (''tags'', JList []), (''attachment_folder'', JStr [])],
      \<lparr>rng = sconst 5, clock = sconst 0, stdout = [], built = []\<rparr>)"
proof -
  have "str_int 5 = ''5''" by code_simp
  then show ?thesis
    by (simp add: build_file_entry_def safe_mtime_def dict_get_def
          signature_or_generate_def parse_signature_like_def isdigit_def isdigit_char_def
          strip_def isspace_char_def get_existing_time_def iso_epoch NODE_VISUAL_KEYS_def
          generate_signature_positive infer_attachment_folder_from_assets_def)
qed

lemma example_node_config:
  "build_node_config (Dir (Some 0) []) [] []
     [(''id'', JInt 42), (''signature'', JInt 0)]
     \<lparr>rng = sconst 5, clock = sconst 0, stdout = [], built = []\<rparr> =
   Returns
     ([(''version'', JInt 3), (''id'', JStr ''42''), (''signature'', JStr ''5''),
       (''created_time'', JStr ''1970-01-01T00:00:00Z''),
       (''modified_time'', JStr ''1970-01-01T00:00:00Z''),
       (''files'', JList []), (''folders'', JList [])],
      \<lparr>rng = sconst 5, clock = sconst 0, stdout = [], built = []\<rparr>)"
proof -
  have "str_int 5 = ''5''" "str_int 42 = ''42''" "str_int 0 = ''0''" by code_simp+
  then show ?thesis
    by (simp add: build_node_config_def safe_mtime_def dict_get_def iterdir_def
          signature_or_generate_def parse_signature_like_def 
          get_existing_time_def iso_epoch NODE_VISUAL_KEYS_def DEFAULT_CONFIG_VERSION_def
          generate_signature_positive)
qed




section \<open>Signatures\<close>

lemma generate_signature_sound_pair:
  assumes "generate_signature r = Some y"
  shows "\<exists>n::nat. 0 < n \<and> n < 2 ^ 63 \<and> fst y = str_int (int n)"
proof (rule generate_signature.raw_induct
    [where P = "\<lambda>r y. \<exists>n::nat. 0 < n \<and> n < 2 ^ 63 \<and> fst y = str_int (int n)", OF _ assms])
  fix g :: "rng \<Rightarrow> (string \<times> rng) option" and r y
  assume IH: "\<And>x y. g x = Some y \<Longrightarrow> \<exists>n::nat. 0 < n \<and> n < 2 ^ 63 \<and> fst y = str_int (int n)"
    and eq: "(if 0 < unat (shd r) then Some (str_int (int (unat (shd r))), stl r)
              else g (stl r)) = Some y"
  show "\<exists>n::nat. 0 < n \<and> n < 2 ^ 63 \<and> fst y = str_int (int n)"
  proof (cases "0 < unat (shd r)")
    case True
    have "unat (shd r) < 2 ^ 63"
      using unsigned_less [of "shd r", where ?'a = nat] by simp
    with True eq show ?thesis by auto
  next
    case False
    with eq have "g (stl r) = Some y" by simp
    then show ?thesis by (rule IH)
  qed
qed

lemma generate_signature_sound:
  "generate_signature r = Some (sig, r') \<Longrightarrow>
     \<exists>n::nat. 0 < n \<and> n < 2 ^ 63 \<and> sig = str_int (int n)"
  using generate_signature_sound_pair [of r "(sig, r')"] by simp

lemma generate_signature_returns:
  "r !! i \<noteq> 0 \<Longrightarrow> generate_signature r \<noteq> None"
proof (induction i arbitrary: r)
  case 0
  then have "0 < unat (shd r)" by (simp add: unat_gt_0)
  then show ?case by (simp add: generate_signature_positive)
next
  case (Suc i)
  show ?case
  proof (cases "0 < unat (shd r)")
    case True
    then show ?thesis by (simp add: generate_signature_positive)
  next
    case False
    then have "generate_signature r = generate_signature (stl r)"
      by (subst generate_signature.simps) simp
    with Suc.IH [of "stl r"] Suc.prems show ?thesis by simp
  qed
qed

lemma signature_or_generate_zero:
  assumes "parse_signature_like v = None"
    and "signature_or_generate v w = Returns (sig, w')"
  shows "generate_signature (rng w) = Some (sig, rng w')"
  using assms
  by (auto simp: signature_or_generate_def split: option.splits)

text \<open>
  C2. A generated signature is the decimal string of a positive integer below \<open>2^63\<close>,
  and the generator returns once the source draws a non-zero value. The signature \<open>"0"\<close>
  is not accepted from existing state, whether a string or a number: a file entry and a
  node config built over a signature that is not accepted carry a signature the generator
  returned from the random source.
\<close>

theorem signature_invariant:
  "(generate_signature r = Some (sig, r') \<longrightarrow>
      (\<exists>n::nat. 0 < n \<and> n < 2 ^ 63 \<and> sig = str_int (int n) \<and> isdigit sig \<and>
         decimal_value sig = n \<and> sig \<noteq> ''0'')) \<and>
   (r !! i \<noteq> 0 \<longrightarrow> generate_signature r \<noteq> None) \<and>
   parse_signature_like (JStr ''0'') = None \<and>
   parse_signature_like (JInt 0) = None \<and>
   (parse_signature_like (dict_get existing ''signature'') = None \<and>
    build_file_entry siblings note existing w = Returns (entry, w') \<longrightarrow>
      (\<exists>s. generate_signature (rng w) = Some (s, rng w') \<and>
           dict_get entry ''signature'' = JStr s)) \<and>
   (parse_signature_like (dict_get existing ''signature'') = None \<and>
    build_node_config dir_node folder_paths note_paths existing w = Returns (config, w') \<longrightarrow>
      (\<exists>s r0. generate_signature r0 = Some (s, rng w') \<and>
           dict_get config ''signature'' = JStr s))"
proof (intro conjI impI)
  assume "generate_signature r = Some (sig, r')"
  from generate_signature_sound [OF this] obtain n :: nat where
    n: "0 < n" "n < 2 ^ 63" "sig = str_int (int n)"
    by blast
  have d: "str_int (int n) = digits_of n" by (simp add: str_int_nonneg)
  show "\<exists>n::nat. 0 < n \<and> n < 2 ^ 63 \<and> sig = str_int (int n) \<and> isdigit sig \<and>
         decimal_value sig = n \<and> sig \<noteq> ''0''"
  proof (intro exI conjI)
    show "0 < n" "n < 2 ^ 63" "sig = str_int (int n)" by (fact n)+
    show "isdigit sig" by (simp only: n(3) d isdigit_digits_of)
    show "decimal_value sig = n" by (simp only: n(3) d decimal_value_digits_of)
    show "sig \<noteq> ''0''" using n(1) by (simp only: n(3) d digits_of_eq_zero)
  qed
next
  assume "r !! i \<noteq> 0"
  then show "generate_signature r \<noteq> None" by (rule generate_signature_returns)
next
  show z: "parse_signature_like (JStr ''0'') = None"
    by (simp add: parse_signature_like_def strip_def isspace_char_def isdigit_def
          isdigit_char_def)
  show "parse_signature_like (JInt 0) = None"
    by (simp add: parse_signature_like_def str_int_def digits_of_eq_zero)
  {
    assume a: "parse_signature_like (dict_get existing ''signature'') = None \<and>
      build_file_entry siblings note existing w = Returns (entry, w')"
    from a have "build_file_entry siblings note existing w = Returns (entry, w')" by simp
    from build_file_entry_Returns [OF this]
    obtain s where
      s: "signature_or_generate (dict_get existing ''signature'')
             (snd (safe_mtime (st_mtime (snd note)) w)) = Returns (s, w')"
      and e: "dict_get entry ''signature'' = JStr s"
      by blast
    from a have "parse_signature_like (dict_get existing ''signature'') = None" by simp
    from signature_or_generate_zero [OF this s] e
    show "\<exists>s. generate_signature (rng w) = Some (s, rng w') \<and>
           dict_get entry ''signature'' = JStr s"
      by (auto simp: safe_mtime_fields)
  }
  {
    assume a: "parse_signature_like (dict_get existing ''signature'') = None \<and>
      build_node_config dir_node folder_paths note_paths existing w = Returns (config, w')"
    from a have
      "build_node_config dir_node folder_paths note_paths existing w = Returns (config, w')"
      by simp
    from build_node_config_Returns [OF this]
    obtain s w2 where
      s: "signature_or_generate (dict_get existing ''signature'') w2 = Returns (s, w')"
      and e: "dict_get config ''signature'' = JStr s"
      by blast
    from a have "parse_signature_like (dict_get existing ''signature'') = None" by simp
    from signature_or_generate_zero [OF this s] e
    show "\<exists>s r0. generate_signature r0 = Some (s, rng w') \<and>
           dict_get config ''signature'' = JStr s"
      by auto
  }
qed

theorem signature_invariant_witness:
  "generate_signature (0 ## sconst 5) = Some (''5'', sconst 5) \<and>
   (\<exists>n::nat. 0 < n \<and> n < 2 ^ 63 \<and> ''5'' = str_int (int n) \<and> isdigit ''5'' \<and>
      decimal_value ''5'' = n \<and> ''5'' \<noteq> ''0'') \<and>
   (0 ## sconst 5) !! 1 \<noteq> (0 :: 63 word) \<and>
   generate_signature (0 ## sconst 5) \<noteq> None \<and>
   parse_signature_like (dict_get [(''id'', JStr '' 42 ''), (''signature'', JStr ''0'')]
      ''signature'') = None \<and>
   (\<exists>s. generate_signature (sconst 5) = Some (s, sconst 5) \<and>
      dict_get
        [(''name'', JStr ''a.md''), (''id'', JStr ''42''), (''signature'', JStr ''5''),
         (''created_time'', JStr ''1970-01-01T00:00:00Z''),
         (''modified_time'', JStr ''1970-01-01T00:00:00Z''),
         (''tags'', JList []), (''attachment_folder'', JStr [])] ''signature'' = JStr s) \<and>
   parse_signature_like (dict_get [(''id'', JInt 42), (''signature'', JInt 0)]
      ''signature'') = None \<and>
   (\<exists>s r0. generate_signature r0 = Some (s, sconst 5) \<and>
      dict_get
        [(''version'', JInt 3), (''id'', JStr ''42''), (''signature'', JStr ''5''),
         (''created_time'', JStr ''1970-01-01T00:00:00Z''),
         (''modified_time'', JStr ''1970-01-01T00:00:00Z''),
         (''files'', JList []), (''folders'', JList [])] ''signature'' = JStr s)"
proof -
  have five: "str_int 5 = ''5''" by code_simp
  have g: "generate_signature (0 ## sconst 5) = Some (''5'', sconst 5)"
    by (subst generate_signature.simps) (simp add: generate_signature_positive five)
  have i: "(0 ## sconst 5) !! 1 \<noteq> (0 :: 63 word)" by simp
  have p1: "parse_signature_like (dict_get [(''id'', JStr '' 42 ''), (''signature'', JStr ''0'')]
      ''signature'') = None"
    by (simp add: dict_get_def parse_signature_like_def strip_def isspace_char_def isdigit_def
          isdigit_char_def)
  have p2: "parse_signature_like (dict_get [(''id'', JInt 42), (''signature'', JInt 0)]
      ''signature'') = None"
    by (simp add: dict_get_def parse_signature_like_def str_int_def digits_of_eq_zero)
  note t = signature_invariant [of "0 ## sconst 5" "''5''" "sconst 5" 1]
  from t [of "[(''id'', JStr '' 42 ''), (''signature'', JStr ''0'')]" "[]"
          "(''a.md'', File (Some 0) NotJson)"
          "\<lparr>rng = sconst 5, clock = sconst 0, stdout = [], built = []\<rparr>"
          "[(''name'', JStr ''a.md''), (''id'', JStr ''42''), (''signature'', JStr ''5''),
            (''created_time'', JStr ''1970-01-01T00:00:00Z''),
            (''modified_time'', JStr ''1970-01-01T00:00:00Z''),
            (''tags'', JList []), (''attachment_folder'', JStr [])]"
          "\<lparr>rng = sconst 5, clock = sconst 0, stdout = [], built = []\<rparr>"]
    g i p1 example_file_entry
  have a: "\<exists>n::nat. 0 < n \<and> n < 2 ^ 63 \<and> ''5'' = str_int (int n) \<and> isdigit ''5'' \<and>
      decimal_value ''5'' = n \<and> ''5'' \<noteq> ''0''"
    "generate_signature (0 ## sconst 5) \<noteq> None"
    "\<exists>s. generate_signature
            (rng \<lparr>rng = sconst 5, clock = sconst 0, stdout = [], built = []\<rparr>) =
          Some (s, rng \<lparr>rng = sconst 5, clock = sconst 0, stdout = [], built = []\<rparr>) \<and>
      dict_get
        [(''name'', JStr ''a.md''), (''id'', JStr ''42''), (''signature'', JStr ''5''),
         (''created_time'', JStr ''1970-01-01T00:00:00Z''),
         (''modified_time'', JStr ''1970-01-01T00:00:00Z''),
         (''tags'', JList []), (''attachment_folder'', JStr [])] ''signature'' = JStr s"
    by blast+
  from t [of "[(''id'', JInt 42), (''signature'', JInt 0)]" _ _
          "\<lparr>rng = sconst 5, clock = sconst 0, stdout = [], built = []\<rparr>" _
          "\<lparr>rng = sconst 5, clock = sconst 0, stdout = [], built = []\<rparr>"
          "Dir (Some 0) []" "[]" "[]"
          "[(''version'', JInt 3), (''id'', JStr ''42''), (''signature'', JStr ''5''),
            (''created_time'', JStr ''1970-01-01T00:00:00Z''),
            (''modified_time'', JStr ''1970-01-01T00:00:00Z''),
            (''files'', JList []), (''folders'', JList [])]"]
    p2 example_node_config
  have b: "\<exists>s r0. generate_signature r0 =
          Some (s, rng \<lparr>rng = sconst 5, clock = sconst 0, stdout = [], built = []\<rparr>) \<and>
      dict_get
        [(''version'', JInt 3), (''id'', JStr ''42''), (''signature'', JStr ''5''),
         (''created_time'', JStr ''1970-01-01T00:00:00Z''),
         (''modified_time'', JStr ''1970-01-01T00:00:00Z''),
         (''files'', JList []), (''folders'', JList [])] ''signature'' = JStr s"
    by blast
  from g i p1 p2 a b show ?thesis by simp
qed

section \<open>Timestamps\<close>

lemma replace_offset:
  "CHR ''+'' \<notin> set p \<Longrightarrow> replace (p @ ''+00:00'') ''+00:00'' ''Z'' = p @ ''Z''"
  by (induction p) auto

lemma zero_pad_digits: "list_all isdigit_char (zero_pad width v)"
proof -
  have "isdigit_char CHR ''0''" by (simp add: isdigit_char_def)
  then show ?thesis
    using digits_of_all_digits [of "nat v"]
    by (auto simp: zero_pad_def Let_def list_all_iff)
qed

lemma plus_not_digit: "list_all isdigit_char s \<Longrightarrow> CHR ''+'' \<notin> set s"
proof -
  have "\<not> isdigit_char CHR ''+''" by (simp add: isdigit_char_def)
  then show "list_all isdigit_char s \<Longrightarrow> CHR ''+'' \<notin> set s"
    unfolding list_all_iff by blast
qed

lemma plus_notin_isoformat_seconds: "CHR ''+'' \<notin> set (isoformat_seconds secs)"
proof -
  obtain y m d where c: "civil_from_days (secs div 86400) = (y, m, d)"
    by (cases "civil_from_days (secs div 86400)")
  have p: "CHR ''+'' \<notin> set (zero_pad width v)" for width v
    by (rule plus_not_digit) (rule zero_pad_digits)
  show ?thesis
    by (simp add: isoformat_seconds_def c p Let_def)
qed

lemma iso_utc_from_timestamp_Returns:
  "iso_utc_from_timestamp ts = Returns s \<Longrightarrow> s = isoformat_seconds (ts div 1000000) @ ''Z''"
  by (auto simp: iso_utc_from_timestamp_def Let_def isoformat_utc_def replace_offset
        plus_notin_isoformat_seconds split: if_splits)

lemma get_existing_time_Returns:
  "get_existing_time existing key ts = Returns created \<Longrightarrow>
   iso_utc_from_timestamp ts = Returns modified \<Longrightarrow>
   created = (case nonempty_str (dict_get existing key) of Some v \<Rightarrow> v | None \<Rightarrow> modified)"
  by (auto simp: get_existing_time_def split: option.splits)

text \<open>
  C6. The modification time is the one \<open>stat\<close> gives and, when \<open>stat\<close> fails, the next
  reading of the wall clock; \<open>safe_mtime\<close> always returns. The derived string is the date
  and time of day of the whole seconds, in UTC, followed by \<open>Z\<close> where \<open>isoformat\<close> has
  \<open>+00:00\<close>. In a file entry and in a node config, \<open>modified_time\<close> is the string derived
  from the modification time, and \<open>created_time\<close> is the existing value when that is a
  non-empty string and the derived string otherwise.
\<close>

theorem timestamp_policy:
  "safe_mtime (Some t) w = (t, w) \<and>
   safe_mtime None w = (shd (clock w), w\<lparr>clock := stl (clock w)\<rparr>) \<and>
   isoformat_utc (ts div 1000000) = isoformat_seconds (ts div 1000000) @ ''+00:00'' \<and>
   (iso_utc_from_timestamp ts = Returns s \<longrightarrow>
      s = isoformat_seconds (ts div 1000000) @ ''Z'') \<and>
   (build_file_entry siblings note existing w = Returns (entry, w') \<longrightarrow>
      (\<exists>modified.
         iso_utc_from_timestamp (fst (safe_mtime (st_mtime (snd note)) w)) = Returns modified \<and>
         dict_get entry ''modified_time'' = JStr modified \<and>
         dict_get entry ''created_time'' =
           JStr (case nonempty_str (dict_get existing ''created_time'') of
                   Some v \<Rightarrow> v | None \<Rightarrow> modified))) \<and>
   (build_node_config dir_node folder_paths note_paths existing w = Returns (config, w') \<longrightarrow>
      (\<exists>modified.
         iso_utc_from_timestamp (fst (safe_mtime (st_mtime dir_node) w)) = Returns modified \<and>
         dict_get config ''modified_time'' = JStr modified \<and>
         dict_get config ''created_time'' =
           JStr (case nonempty_str (dict_get existing ''created_time'') of
                   Some v \<Rightarrow> v | None \<Rightarrow> modified)))"
proof (intro conjI impI)
  show "safe_mtime (Some t) w = (t, w)"
    "safe_mtime None w = (shd (clock w), w\<lparr>clock := stl (clock w)\<rparr>)"
    by (simp_all add: safe_mtime_def)
  show "isoformat_utc (ts div 1000000) = isoformat_seconds (ts div 1000000) @ ''+00:00''"
    by (simp add: isoformat_utc_def)
next
  assume "iso_utc_from_timestamp ts = Returns s"
  then show "s = isoformat_seconds (ts div 1000000) @ ''Z''"
    by (rule iso_utc_from_timestamp_Returns)
next
  assume "build_file_entry siblings note existing w = Returns (entry, w')"
  from build_file_entry_Returns [OF this] obtain created modified where
    c: "get_existing_time existing ''created_time''
          (fst (safe_mtime (st_mtime (snd note)) w)) = Returns created"
    and m: "iso_utc_from_timestamp (fst (safe_mtime (st_mtime (snd note)) w)) = Returns modified"
    and e: "dict_get entry ''created_time'' = JStr created"
      "dict_get entry ''modified_time'' = JStr modified"
    by blast
  from get_existing_time_Returns [OF c m] m e
  show "\<exists>modified.
         iso_utc_from_timestamp (fst (safe_mtime (st_mtime (snd note)) w)) = Returns modified \<and>
         dict_get entry ''modified_time'' = JStr modified \<and>
         dict_get entry ''created_time'' =
           JStr (case nonempty_str (dict_get existing ''created_time'') of
                   Some v \<Rightarrow> v | None \<Rightarrow> modified)"
    by simp
next
  assume "build_node_config dir_node folder_paths note_paths existing w = Returns (config, w')"
  from build_node_config_Returns [OF this] obtain created modified where
    c: "get_existing_time existing ''created_time''
          (fst (safe_mtime (st_mtime dir_node) w)) = Returns created"
    and m: "iso_utc_from_timestamp (fst (safe_mtime (st_mtime dir_node) w)) = Returns modified"
    and e: "dict_get config ''created_time'' = JStr created"
      "dict_get config ''modified_time'' = JStr modified"
    by blast
  from get_existing_time_Returns [OF c m] m e
  show "\<exists>modified.
         iso_utc_from_timestamp (fst (safe_mtime (st_mtime dir_node) w)) = Returns modified \<and>
         dict_get config ''modified_time'' = JStr modified \<and>
         dict_get config ''created_time'' =
           JStr (case nonempty_str (dict_get existing ''created_time'') of
                   Some v \<Rightarrow> v | None \<Rightarrow> modified)"
    by simp
qed

lemma example_file_entry_unreadable_stat:
  "build_file_entry [] (''a.md'', File None NotJson)
     [(''signature'', JStr ''7''), (''created_time'', JStr ''2001-02-03T04:05:06Z'')]
     \<lparr>rng = sconst 5, clock = sconst 0, stdout = [], built = []\<rparr> =
   Returns
     ([(''name'', JStr ''a.md''), (''id'', JStr ''0''), (''signature'', JStr ''7''),
       (''created_time'', JStr ''2001-02-03T04:05:06Z''),
       (''modified_time'', JStr ''1970-01-01T00:00:00Z''),
       (''tags'', JList []), (''attachment_folder'', JStr [])],
      \<lparr>rng = sconst 5, clock = sconst 0, stdout = [], built = []\<rparr>)"
  by (simp add: build_file_entry_def safe_mtime_def dict_get_def
        signature_or_generate_def parse_signature_like_def isdigit_def isdigit_char_def
        strip_def isspace_char_def get_existing_time_def iso_epoch NODE_VISUAL_KEYS_def
        infer_attachment_folder_from_assets_def)

theorem timestamp_policy_witness:
  "iso_utc_from_timestamp 0 = Returns ''1970-01-01T00:00:00Z'' \<and>
   ''1970-01-01T00:00:00Z'' = isoformat_seconds (0 div 1000000) @ ''Z'' \<and>
   (\<exists>modified.
      iso_utc_from_timestamp
        (fst (safe_mtime (st_mtime (snd (''a.md'', File None NotJson)))
           \<lparr>rng = sconst 5, clock = sconst 0, stdout = [], built = []\<rparr>)) = Returns modified \<and>
      dict_get
        [(''name'', JStr ''a.md''), (''id'', JStr ''0''), (''signature'', JStr ''7''),
         (''created_time'', JStr ''2001-02-03T04:05:06Z''),
         (''modified_time'', JStr ''1970-01-01T00:00:00Z''),
         (''tags'', JList []), (''attachment_folder'', JStr [])] ''modified_time'' = JStr modified \<and>
      dict_get
        [(''name'', JStr ''a.md''), (''id'', JStr ''0''), (''signature'', JStr ''7''),
         (''created_time'', JStr ''2001-02-03T04:05:06Z''),
         (''modified_time'', JStr ''1970-01-01T00:00:00Z''),
         (''tags'', JList []), (''attachment_folder'', JStr [])] ''created_time'' =
        JStr (case nonempty_str
                (dict_get [(''signature'', JStr ''7''),
                           (''created_time'', JStr ''2001-02-03T04:05:06Z'')] ''created_time'') of
                Some v \<Rightarrow> v | None \<Rightarrow> modified)) \<and>
   (\<exists>modified.
      iso_utc_from_timestamp
        (fst (safe_mtime (st_mtime (Dir (Some 0) []))
           \<lparr>rng = sconst 5, clock = sconst 0, stdout = [], built = []\<rparr>)) = Returns modified \<and>
      dict_get
        [(''version'', JInt 3), (''id'', JStr ''42''), (''signature'', JStr ''5''),
         (''created_time'', JStr ''1970-01-01T00:00:00Z''),
         (''modified_time'', JStr ''1970-01-01T00:00:00Z''),
         (''files'', JList []), (''folders'', JList [])] ''modified_time'' = JStr modified \<and>
      dict_get
        [(''version'', JInt 3), (''id'', JStr ''42''), (''signature'', JStr ''5''),
         (''created_time'', JStr ''1970-01-01T00:00:00Z''),
         (''modified_time'', JStr ''1970-01-01T00:00:00Z''),
         (''files'', JList []), (''folders'', JList [])] ''created_time'' =
        JStr (case nonempty_str
                (dict_get [(''id'', JInt 42), (''signature'', JInt 0)] ''created_time'') of
                Some v \<Rightarrow> v | None \<Rightarrow> modified))"
proof -
  note t = timestamp_policy [of _ "\<lparr>rng = sconst 5, clock = sconst 0, stdout = [], built = []\<rparr>" 0 "''1970-01-01T00:00:00Z''"]
  from t [of _ "[]" "(''a.md'', File None NotJson)"
          "[(''signature'', JStr ''7''), (''created_time'', JStr ''2001-02-03T04:05:06Z'')]"
          "[(''name'', JStr ''a.md''), (''id'', JStr ''0''), (''signature'', JStr ''7''),
            (''created_time'', JStr ''2001-02-03T04:05:06Z''),
            (''modified_time'', JStr ''1970-01-01T00:00:00Z''),
            (''tags'', JList []), (''attachment_folder'', JStr [])]"
          "\<lparr>rng = sconst 5, clock = sconst 0, stdout = [], built = []\<rparr>"]
    iso_epoch example_file_entry_unreadable_stat
  have a: "''1970-01-01T00:00:00Z'' = isoformat_seconds (0 div 1000000) @ ''Z''"
    "\<exists>modified.
      iso_utc_from_timestamp
        (fst (safe_mtime (st_mtime (snd (''a.md'', File None NotJson)))
           \<lparr>rng = sconst 5, clock = sconst 0, stdout = [], built = []\<rparr>)) = Returns modified \<and>
      dict_get
        [(''name'', JStr ''a.md''), (''id'', JStr ''0''), (''signature'', JStr ''7''),
         (''created_time'', JStr ''2001-02-03T04:05:06Z''),
         (''modified_time'', JStr ''1970-01-01T00:00:00Z''),
         (''tags'', JList []), (''attachment_folder'', JStr [])] ''modified_time'' = JStr modified \<and>
      dict_get
        [(''name'', JStr ''a.md''), (''id'', JStr ''0''), (''signature'', JStr ''7''),
         (''created_time'', JStr ''2001-02-03T04:05:06Z''),
         (''modified_time'', JStr ''1970-01-01T00:00:00Z''),
         (''tags'', JList []), (''attachment_folder'', JStr [])] ''created_time'' =
        JStr (case nonempty_str
                (dict_get [(''signature'', JStr ''7''),
                           (''created_time'', JStr ''2001-02-03T04:05:06Z'')] ''created_time'') of
                Some v \<Rightarrow> v | None \<Rightarrow> modified)"
    by blast+
  from t [of _ _ _ "[(''id'', JInt 42), (''signature'', JInt 0)]" _
          "\<lparr>rng = sconst 5, clock = sconst 0, stdout = [], built = []\<rparr>"
          "Dir (Some 0) []" "[]" "[]"
          "[(''version'', JInt 3), (''id'', JStr ''42''), (''signature'', JStr ''5''),
            (''created_time'', JStr ''1970-01-01T00:00:00Z''),
            (''modified_time'', JStr ''1970-01-01T00:00:00Z''),
            (''files'', JList []), (''folders'', JList [])]"]
    example_node_config
  have b: "\<exists>modified.
      iso_utc_from_timestamp
        (fst (safe_mtime (st_mtime (Dir (Some 0) []))
           \<lparr>rng = sconst 5, clock = sconst 0, stdout = [], built = []\<rparr>)) = Returns modified \<and>
      dict_get
        [(''version'', JInt 3), (''id'', JStr ''42''), (''signature'', JStr ''5''),
         (''created_time'', JStr ''1970-01-01T00:00:00Z''),
         (''modified_time'', JStr ''1970-01-01T00:00:00Z''),
         (''files'', JList []), (''folders'', JList [])] ''modified_time'' = JStr modified \<and>
      dict_get
        [(''version'', JInt 3), (''id'', JStr ''42''), (''signature'', JStr ''5''),
         (''created_time'', JStr ''1970-01-01T00:00:00Z''),
         (''modified_time'', JStr ''1970-01-01T00:00:00Z''),
         (''files'', JList []), (''folders'', JList [])] ''created_time'' =
        JStr (case nonempty_str
                (dict_get [(''id'', JInt 42), (''signature'', JInt 0)] ''created_time'') of
                Some v \<Rightarrow> v | None \<Rightarrow> modified)"
    by blast
  from iso_epoch a b show ?thesis by blast
qed

section \<open>Existing-state loader\<close>







section \<open>Attachment inference\<close>









section \<open>Scanner\<close>

lemma classify_Folder:
  "classify name child = Folder \<Longrightarrow>
     name \<noteq> CONFIG_FILE_NAME \<and> \<not> is_symlink child \<and> is_dir child \<and> \<not> should_exclude_dir name"
  by (auto simp: classify_def split: if_splits)

lemma classify_Note:
  "classify name child = Note \<Longrightarrow>
     name \<noteq> CONFIG_FILE_NAME \<and> \<not> is_symlink child \<and> is_file child \<and>
     lower (suffix name) = NOTE_SUFFIX"
  by (auto simp: classify_def split: if_splits)

lemma should_exclude_dir_iff:
  "should_exclude_dir name \<longleftrightarrow>
     startswith name ''.'' \<or> endswith (lower name) ''_assets'' \<or>
     lower name \<in> set BUILT_IN_DIR_NAMES"
  by (simp add: should_exclude_dir_def is_hidden_name_def)

lemma set_iter_children:
  "set (fst (iter_children ch)) = {p \<in> set ch. classify (fst p) (snd p) = Folder}"
  "set (snd (iter_children ch)) = {p \<in> set ch. classify (fst p) (snd p) = Note}"
  by (simp_all add: iter_children_def)

lemma not_symlink_is_dir: "\<not> is_symlink n \<Longrightarrow> is_dir n \<Longrightarrow> \<exists>st ch. n = Dir st ch"
  by (cases n) (auto simp: is_dir_def)

lemma scan_children:
  "(\<forall>p \<in> set (fst (iter_children ch)).
      p \<in> set ch \<and>
      \<not> startswith (fst p) ''.'' \<and> \<not> endswith (lower (fst p)) ''_assets'' \<and>
      lower (fst p) \<notin> set BUILT_IN_DIR_NAMES \<and>
      \<not> is_symlink (snd p) \<and> fst p \<noteq> CONFIG_FILE_NAME \<and> is_dir (snd p)) \<and>
   (\<forall>p \<in> set (snd (iter_children ch)).
      p \<in> set ch \<and> \<not> is_symlink (snd p) \<and> fst p \<noteq> CONFIG_FILE_NAME) \<and>
   (build_node_config dir_node (fst (iter_children ch)) (snd (iter_children ch)) existing w =
      Returns (config, w') \<longrightarrow>
    (\<exists>entries.
       dict_get config ''folders'' = JList (map JDict entries) \<and>
       map (\<lambda>e. dict_get e ''name'') entries =
         map (\<lambda>p. JStr (fst p)) (fst (iter_children ch))))"
proof (intro conjI ballI impI)
  fix p
  assume "p \<in> set (fst (iter_children ch))"
  then have p: "p \<in> set ch" "classify (fst p) (snd p) = Folder"
    by (simp_all add: set_iter_children)
  from classify_Folder [OF p(2)]
  show "p \<in> set ch" "\<not> startswith (fst p) ''.''" "\<not> endswith (lower (fst p)) ''_assets''"
    "lower (fst p) \<notin> set BUILT_IN_DIR_NAMES" "\<not> is_symlink (snd p)"
    "fst p \<noteq> CONFIG_FILE_NAME" "is_dir (snd p)"
    using p(1) by (simp_all add: should_exclude_dir_iff)
next
  fix p
  assume "p \<in> set (snd (iter_children ch))"
  then have p: "p \<in> set ch" "classify (fst p) (snd p) = Note"
    by (simp_all add: set_iter_children)
  from classify_Note [OF p(2)]
  show "p \<in> set ch" "\<not> is_symlink (snd p)" "fst p \<noteq> CONFIG_FILE_NAME"
    using p(1) by simp_all
next
  assume "build_node_config dir_node (fst (iter_children ch)) (snd (iter_children ch))
      existing w = Returns (config, w')"
  from build_node_config_Returns [OF this]
  have f: "dict_get config ''folders'' =
             JList (map (\<lambda>folder. JDict (build_folder_entry (fst folder)
                            (get_entry (map_entries_by_name (dict_get existing ''folders''))
                               (fst folder))))
                          (fst (iter_children ch)))"
    by blast
  have n: "dict_get (build_folder_entry name e) ''name'' = JStr name" for name e
    by (simp add: build_folder_entry_def dict_get_copy_visual_keys not_visual_key)
       (simp add: dict_get_def)
  show "\<exists>entries.
       dict_get config ''folders'' = JList (map JDict entries) \<and>
       map (\<lambda>e. dict_get e ''name'') entries =
         map (\<lambda>p. JStr (fst p)) (fst (iter_children ch))"
    by (rule exI [of _ "map (\<lambda>folder. build_folder_entry (fst folder)
                            (get_entry (map_entries_by_name (dict_get existing ''folders''))
                               (fst folder))) (fst (iter_children ch))"])
       (simp add: f n comp_def)
qed

section \<open>The recursive walk\<close>

text \<open>
  Notions for stating properties of a whole run. A directory tree is well formed when
  no directory lists a name twice. A path lies below a root through included folders
  when it extends the root by names that the scanner does not exclude. A config lists
  only included folders when every entry of its \<open>folders\<close> list carries a name that the
  scanner does not exclude. The report of a built config is the line printed for it in
  verbose and in dry-run mode.
\<close>

fun wf_node :: "node \<Rightarrow> bool" where
  "wf_node (Dir st ch) = (distinct (map fst ch) \<and> list_all (\<lambda>p. wf_node (snd p)) ch)"
| "wf_node n = True"

definition below :: "path \<Rightarrow> path \<Rightarrow> bool" where
  "below root p \<longleftrightarrow>
     (\<exists>names. p = root @ names \<and> list_all (\<lambda>n. \<not> should_exclude_dir n) names)"

fun entry_names :: "json \<Rightarrow> json list" where
  "entry_names (JList entries) =
     map (\<lambda>e. case e of JDict d \<Rightarrow> dict_get d ''name'' | _ \<Rightarrow> JNull) entries"
| "entry_names v = []"

definition lists_included :: "dict \<Rightarrow> bool" where
  "lists_included config \<longleftrightarrow>
     list_all (\<lambda>n. case n of JStr name \<Rightarrow> \<not> should_exclude_dir name | _ \<Rightarrow> False)
       (entry_names (dict_get config ''folders''))"

fun json_length :: "json \<Rightarrow> nat" where
  "json_length (JList xs) = length xs"
| "json_length v = 0"

definition report_line :: "path \<times> dict \<Rightarrow> string" where
  "report_line e =
     path_str (fst e @ [CONFIG_FILE_NAME]) @ ''  folders='' @
     str_int (int (json_length (dict_get (snd e) ''folders''))) @ '' md='' @
     str_int (int (json_length (dict_get (snd e) ''files'')))"

text \<open>
  What a part of a run from world \<open>w\<close> to world \<open>w'\<close> has done below \<open>root\<close>: it has
  built the configs \<open>new\<close>, each for a path below \<open>root\<close> and each listing only included
  folders, and it has printed their reports when \<open>reporting\<close> and nothing otherwise.
\<close>

definition run_trace :: "bool \<Rightarrow> path \<Rightarrow> world \<Rightarrow> world \<Rightarrow> (path \<times> dict) list \<Rightarrow> bool" where
  "run_trace reporting root w w' new \<longleftrightarrow>
     built w' = built w @ new \<and>
     stdout w' = stdout w @ (if reporting then map report_line new else []) \<and>
     list_all (\<lambda>e. below root (fst e) \<and> lists_included (snd e)) new"

lemma write_text_Returns_not_Dir:
  "write_text n c t = Returns n' \<Longrightarrow> \<not> is_symlink n \<Longrightarrow> is_dir n' = is_dir n"
  by (cases n) (auto simp: is_dir_def)

lemma write_json_fields:
  assumes "write_json d data w = Returns (d', w')"
  shows "stdout w' = stdout w" "built w' = built w" "rng w' = rng w"
  using assms
  by (cases d; auto simp: Let_def and_then_Returns split: option.splits)+

lemma rebuild_recursively_Returns:
  assumes "rebuild_recursively p n dry v w = Returns (n', t, w')"
  obtains st ch config w1 d1 w4 ch' where
    "n = Dir st ch"
    "build_node_config (Dir st ch) (fst (iter_children ch)) (snd (iter_children ch))
       (load_existing_config (map_of ch CONFIG_FILE_NAME)) w = Returns (config, w1)"
    "(if \<not> dry then
        write_json (Dir st ch) config
          (if v \<or> dry
           then print_line
                  (path_str (p @ [CONFIG_FILE_NAME]) @ ''  folders='' @
                   str_int (int (length (fst (iter_children ch)))) @ '' md='' @
                   str_int (int (length (snd (iter_children ch)))))
                  (w1\<lparr>built := built w1 @ [(p, config)]\<rparr>)
           else w1\<lparr>built := built w1 @ [(p, config)]\<rparr>)
      else Returns (Dir st ch,
          (if v \<or> dry
           then print_line
                  (path_str (p @ [CONFIG_FILE_NAME]) @ ''  folders='' @
                   str_int (int (length (fst (iter_children ch)))) @ '' md='' @
                   str_int (int (length (snd (iter_children ch)))))
                  (w1\<lparr>built := built w1 @ [(p, config)]\<rparr>)
           else w1\<lparr>built := built w1 @ [(p, config)]\<rparr>))) = Returns (d1, w4)"
    "rebuild_folders p (fst (iter_children ch)) dry v
       (iterdir d1, (1, length (fst (iter_children ch)), length (snd (iter_children ch))), w4) =
       Returns (ch', t, w')"
    "n' = Dir (st_mtime d1) ch'"
proof (cases n)
  case (Dir st ch)
  with assms show ?thesis
    by (auto simp: rebuild_recursively.simps(1) Let_def and_then_Returns intro: that
          split: prod.splits)
qed (use assms in auto)

lemma run_trace_trans:
  "run_trace r p w w1 new1 \<Longrightarrow> run_trace r p w1 w2 new2 \<Longrightarrow> run_trace r p w w2 (new1 @ new2)"
  by (auto simp: run_trace_def)

lemma below_child:
  "\<not> should_exclude_dir name \<Longrightarrow> below (p @ [name]) q \<Longrightarrow> below p q"
  by (auto simp: below_def)

lemma run_trace_child:
  "\<not> should_exclude_dir name \<Longrightarrow> run_trace r (p @ [name]) w w' new \<Longrightarrow> run_trace r p w w' new"
  by (auto simp: run_trace_def list_all_iff dest: below_child)

lemma below_refl: "below p p"
  by (simp add: below_def)

lemma build_node_config_lists:
  assumes "build_node_config d fs ns existing w = Returns (config, w')"
  shows "json_length (dict_get config ''folders'') = length fs"
    and "json_length (dict_get config ''files'') = length ns"
    and "entry_names (dict_get config ''folders'') = map (\<lambda>p. JStr (fst p)) fs"
proof -
  from build_node_config_Returns [OF assms] obtain file_entries w2 where
    a: "build_file_entries (iterdir d)
             (map_entries_by_name (dict_get existing ''files'')) ns
             (snd (safe_mtime (st_mtime d) w)) = Returns (file_entries, w2)"
    and b: "dict_get config ''files'' = JList file_entries"
    and c: "dict_get config ''folders'' =
             JList (map (\<lambda>folder. JDict (build_folder_entry (fst folder)
                            (get_entry (map_entries_by_name (dict_get existing ''folders''))
                               (fst folder))))
                          fs)"
    by blast
  have n: "dict_get (build_folder_entry name e) ''name'' = JStr name" for name e
    by (simp add: build_folder_entry_def dict_get_copy_visual_keys not_visual_key)
       (simp add: dict_get_def)
  from build_file_entries_Returns [OF a] have "length file_entries = length ns"
    by (auto dest: list_all2_lengthD)
  with b show "json_length (dict_get config ''files'') = length ns" by simp
  from c show "json_length (dict_get config ''folders'') = length fs" by simp
  from c show "entry_names (dict_get config ''folders'') = map (\<lambda>p. JStr (fst p)) fs"
    by (simp add: n comp_def)
qed

lemma rebuild_folders_trace:
  assumes IH: "\<And>f q w n' t w'. f \<in> S \<Longrightarrow>
      rebuild_recursively q (snd f) dry v w = Returns (n', t, w') \<Longrightarrow>
      \<exists>new. run_trace (dry \<or> v) q w w' new \<and> length new = fst t"
  shows "set fs \<subseteq> S \<Longrightarrow> list_all (\<lambda>f. \<not> should_exclude_dir (fst f)) fs \<Longrightarrow>
     rebuild_folders p fs dry v (ch, t, w) = Returns (ch', t', w') \<Longrightarrow>
     \<exists>new. run_trace (dry \<or> v) p w w' new \<and> fst t' = fst t + length new"
proof (induction fs arbitrary: ch t w)
  case Nil
  then show ?case by (auto simp: run_trace_def)
next
  case (Cons f fs)
  obtain tc tf tn where t: "t = (tc, tf, tn)" by (cases t)
  from Cons.prems(3) obtain f' sc sf sn w1 where
    a: "rebuild_recursively (p @ [fst f]) (snd f) dry v w = Returns (f', (sc, sf, sn), w1)"
    and b: "rebuild_folders p fs dry v
              (put_child ch (fst f) f', (tc + sc, tf + sf, tn + sn), w1) = Returns (ch', t', w')"
    unfolding t by (auto simp: and_then_Returns)
  from Cons.prems(1) have "f \<in> S" "set fs \<subseteq> S" by simp_all
  from IH [OF this(1) a] obtain new1 where
    n1: "run_trace (dry \<or> v) (p @ [fst f]) w w1 new1" "length new1 = sc"
    by auto
  from Cons.prems(2) have ex: "\<not> should_exclude_dir (fst f)"
    "list_all (\<lambda>f. \<not> should_exclude_dir (fst f)) fs"
    by simp_all
  from Cons.IH [OF \<open>set fs \<subseteq> S\<close> ex(2) b] obtain new2 where
    n2: "run_trace (dry \<or> v) p w1 w' new2" "fst t' = tc + sc + length new2"
    by auto
  from run_trace_trans [OF run_trace_child [OF ex(1) n1(1)] n2(1)] n1(2) n2(2) t
  show ?case by auto
qed

lemma rebuild_recursively_trace:
  "rebuild_recursively p n dry v w = Returns (n', t, w') \<Longrightarrow>
     \<exists>new. run_trace (dry \<or> v) p w w' new \<and> length new = fst t"
proof (induction n arbitrary: p w n' t w')
  case (Dir st0 ch0)
  from Dir.prems obtain st ch config w1 d1 w4 ch' where
    n: "Dir st0 ch0 = Dir st ch"
    and bc: "build_node_config (Dir st ch) (fst (iter_children ch)) (snd (iter_children ch))
       (load_existing_config (map_of ch CONFIG_FILE_NAME)) w = Returns (config, w1)"
    and wr: "(if \<not> dry then
        write_json (Dir st ch) config
          (if v \<or> dry
           then print_line
                  (path_str (p @ [CONFIG_FILE_NAME]) @ ''  folders='' @
                   str_int (int (length (fst (iter_children ch)))) @ '' md='' @
                   str_int (int (length (snd (iter_children ch)))))
                  (w1\<lparr>built := built w1 @ [(p, config)]\<rparr>)
           else w1\<lparr>built := built w1 @ [(p, config)]\<rparr>)
      else Returns (Dir st ch,
          (if v \<or> dry
           then print_line
                  (path_str (p @ [CONFIG_FILE_NAME]) @ ''  folders='' @
                   str_int (int (length (fst (iter_children ch)))) @ '' md='' @
                   str_int (int (length (snd (iter_children ch)))))
                  (w1\<lparr>built := built w1 @ [(p, config)]\<rparr>)
           else w1\<lparr>built := built w1 @ [(p, config)]\<rparr>))) = Returns (d1, w4)"
    and lp: "rebuild_folders p (fst (iter_children ch)) dry v
       (iterdir d1, (1, length (fst (iter_children ch)), length (snd (iter_children ch))), w4) =
       Returns (ch', t, w')"
    by (rule rebuild_recursively_Returns)
  from n have ch: "ch0 = ch" by simp
  note lists = build_node_config_lists [OF bc]
  have line: "report_line (p, config) =
                   path_str (p @ [CONFIG_FILE_NAME]) @ ''  folders='' @
                   str_int (int (length (fst (iter_children ch)))) @ '' md='' @
                   str_int (int (length (snd (iter_children ch))))"
    by (simp add: report_line_def lists)
  have excl: "list_all (\<lambda>f. \<not> should_exclude_dir (fst f)) (fst (iter_children ch))"
    using scan_children [of ch] by (auto simp: list_all_iff should_exclude_dir_iff)
  then have inc: "lists_included config"
    by (simp add: lists_included_def lists list_all_iff)
  define w3 where "w3 =
          (if v \<or> dry
           then print_line
                  (path_str (p @ [CONFIG_FILE_NAME]) @ ''  folders='' @
                   str_int (int (length (fst (iter_children ch)))) @ '' md='' @
                   str_int (int (length (snd (iter_children ch)))))
                  (w1\<lparr>built := built w1 @ [(p, config)]\<rparr>)
           else w1\<lparr>built := built w1 @ [(p, config)]\<rparr>)"
  have w3: "built w3 = built w @ [(p, config)]"
    "stdout w3 = stdout w @ (if dry \<or> v then [report_line (p, config)] else [])"
    using build_node_config_fields [OF bc]
    by (auto simp: w3_def line print_line_def)
  from wr have "(if \<not> dry then write_json (Dir st ch) config w3 else Returns (Dir st ch, w3)) =
      Returns (d1, w4)"
    by (simp only: w3_def)
  then have "built w4 = built w3 \<and> stdout w4 = stdout w3"
    by (cases dry) (auto simp del: write_json.simps dest: write_json_fields)
  with w3 have w4: "built w4 = built w @ [(p, config)]"
    "stdout w4 = stdout w @ (if dry \<or> v then [report_line (p, config)] else [])"
    by simp_all
  with inc have first: "run_trace (dry \<or> v) p w w4 [(p, config)]"
    by (simp add: run_trace_def below_refl)
  have "\<exists>new. run_trace (dry \<or> v) p w4 w' new \<and>
      fst t = fst (1 :: nat, length (fst (iter_children ch)), length (snd (iter_children ch))) +
        length new"
  proof (rule rebuild_folders_trace [OF _ _ excl lp])
    fix f q w n' t w'
    assume f: "f \<in> set ch0"
      and r: "rebuild_recursively q (snd f) dry v w = Returns (n', t, w')"
    have "snd f \<in> Basic_BNFs.snds f" by (cases f) simp
    with f show "\<exists>new. run_trace (dry \<or> v) q w w' new \<and> length new = fst t"
      using r by (rule Dir.IH)
  next
    show "set (fst (iter_children ch)) \<subseteq> set ch0"
      by (auto simp: set_iter_children ch)
  qed
  then obtain new where new: "run_trace (dry \<or> v) p w4 w' new" "fst t = 1 + length new"
    by auto
  from run_trace_trans [OF first new(1)] new(2) show ?case by auto
qed (auto simp: run_trace_def)

lemma put_child_same:
  "distinct (map fst ch) \<Longrightarrow> (n, c) \<in> set ch \<Longrightarrow> put_child ch n c = ch"
  by (induction ch) (auto simp: rev_image_eqI)

lemma rebuild_folders_dry:
  assumes IH: "\<And>f q w n' t w'. f \<in> S \<Longrightarrow>
      rebuild_recursively q (snd f) True v w = Returns (n', t, w') \<Longrightarrow> n' = snd f"
  shows "set fs \<subseteq> S \<Longrightarrow> set fs \<subseteq> set ch \<Longrightarrow> distinct (map fst ch) \<Longrightarrow>
     rebuild_folders p fs True v (ch, t, w) = Returns (ch', t', w') \<Longrightarrow> ch' = ch"
proof (induction fs arbitrary: t w)
  case Nil
  then show ?case by simp
next
  case (Cons f fs)
  obtain tc tf tn where t: "t = (tc, tf, tn)" by (cases t)
  from Cons.prems(4) obtain f' sc sf sn w1 where
    a: "rebuild_recursively (p @ [fst f]) (snd f) True v w = Returns (f', (sc, sf, sn), w1)"
    and b: "rebuild_folders p fs True v
              (put_child ch (fst f) f', (tc + sc, tf + sf, tn + sn), w1) = Returns (ch', t', w')"
    unfolding t by (auto simp: and_then_Returns)
  from Cons.prems(1) have "f \<in> S" "set fs \<subseteq> S" by simp_all
  from IH [OF this(1) a] have "f' = snd f" .
  moreover from Cons.prems(2) have "(fst f, snd f) \<in> set ch" "set fs \<subseteq> set ch" by simp_all
  ultimately have "put_child ch (fst f) f' = ch"
    using Cons.prems(3) by (simp add: put_child_same)
  with b Cons.IH [OF \<open>set fs \<subseteq> S\<close> \<open>set fs \<subseteq> set ch\<close> Cons.prems(3)] show ?case
    by simp
qed

lemma rebuild_recursively_dry_Returns:
  assumes "rebuild_recursively p (Dir st ch) True v w = Returns (n', t, w')"
  obtains w4 ch' where
    "rebuild_folders p (fst (iter_children ch)) True v
       (ch, (1, length (fst (iter_children ch)), length (snd (iter_children ch))), w4) =
       Returns (ch', t, w')"
    "n' = Dir st ch'"
  using assms
  by (auto simp: rebuild_recursively.simps(1) Let_def and_then_Returns iterdir_def
        split: prod.splits)

lemma rebuild_recursively_dry:
  "wf_node n \<Longrightarrow> rebuild_recursively p n True v w = Returns (n', t, w') \<Longrightarrow> n' = n"
proof (induction n arbitrary: p w n' t w')
  case (Dir st ch)
  from Dir.prems(2) obtain w4 ch' where
    lp: "rebuild_folders p (fst (iter_children ch)) True v
       (ch, (1, length (fst (iter_children ch)), length (snd (iter_children ch))), w4) =
       Returns (ch', t, w')"
    and n': "n' = Dir st ch'"
    by (rule rebuild_recursively_dry_Returns)
  from Dir.prems(1) have wf: "distinct (map fst ch)" "\<forall>f \<in> set ch. wf_node (snd f)"
    by (simp_all add: list_all_iff)
  have "ch' = ch"
  proof (rule rebuild_folders_dry [OF _ _ _ _ lp])
    fix f q w n' t w'
    assume f: "f \<in> set ch"
      and r: "rebuild_recursively q (snd f) True v w = Returns (n', t, w')"
    have "snd f \<in> Basic_BNFs.snds f" by (cases f) simp
    with f wf(2) r show "n' = snd f"
      using Dir.IH [of f "snd f"] by simp
  next
    show "set (fst (iter_children ch)) \<subseteq> set ch" by (auto simp: set_iter_children)
    then show "set (fst (iter_children ch)) \<subseteq> set ch" .
    show "distinct (map fst ch)" by (fact wf(1))
  qed
  with n' show ?case by simp
qed auto

end
